theory Spec2Isabelle
  imports Main "HOL-Library.List_Lexorder"
begin

section \<open>Python values\<close>

text \<open>
  The notebook builds its requests with \<open>json.dumps\<close> and reads the responses with
  \<open>json.loads\<close>. The values on both sides are the Python values that have a JSON form:
  \<open>None\<close>, \<open>bool\<close>, \<open>int\<close> (unbounded), \<open>float\<close> (IEEE binary64), \<open>str\<close> (a sequence of
  Unicode code points), \<open>list\<close> and \<open>dict\<close> with \<open>str\<close> keys (in insertion order).
\<close>

type_synonym pystr = "nat list"

text \<open>A \<open>str\<close> literal of the source, all of whose characters are ASCII.\<close>

definition ascii :: "string \<Rightarrow> pystr" where
  "ascii s = map of_char s"

text \<open>
  A binary64 number: \<open>Finite s m e\<close> is \<open>(-1)^s * m * 2^e\<close>. The numbers of the format are
  those with \<open>m < 2^53\<close> and \<open>-1074 \<le> e \<le> 971\<close>, written with the least exponent
  possible (\<open>2^52 \<le> m\<close>, or \<open>e = -1074\<close>), so that each has one representation; both
  zeros \<open>Finite False 0 (-1074)\<close> and \<open>Finite True 0 (-1074)\<close> are there.
\<close>

datatype pyfloat = Finite bool nat int | Infinity bool | NaN

datatype pyval =
    PyNone
  | PyBool bool
  | PyInt int
  | PyFloat pyfloat
  | PyStr pystr
  | PyList "pyval list"
  | PyDict "(pystr \<times> pyval) list"

text \<open>
  The exceptions that the modelled code can meet. \<open>ClientError code message\<close> is botocore's
  \<open>ClientError\<close> with \<open>error.response['Error']['Code']\<close> and \<open>['Message']\<close>;
  \<open>ParserRejectedMarkup\<close> is what \<open>bs4\<close> raises for markup its parser gives up on;
  \<open>OtherException name\<close> is any exception of another class raised by library code
  (a connection failure, a parameter validation error, a malformed body).
\<close>

datatype exn =
    ClientError pystr pystr
  | KeyError pyval
  | IndexError
  | TypeError
  | ValueError
  | OverflowError
  | StopIteration
  | ParserRejectedMarkup
  | OtherException pystr

text \<open>\<open>LookupError\<close> is the base class of \<open>KeyError\<close> and \<open>IndexError\<close>, and of none of the
  others.\<close>

fun is_LookupError :: "exn \<Rightarrow> bool" where
  "is_LookupError (KeyError k) = True"
| "is_LookupError IndexError = True"
| "is_LookupError e = False"

subsection \<open>Subscription\<close>

text \<open>
  \<open>x[k]\<close> with a \<open>str\<close> key and \<open>x[i]\<close> with an index \<open>i \<ge> 0\<close>, as Python evaluates them on
  the values above: a \<open>dict\<close> raises \<open>KeyError\<close> for a key it does not hold (an \<open>int\<close> is
  never a key of a deserialized JSON object), a \<open>list\<close> and a \<open>str\<close> raise \<open>IndexError\<close>
  out of range and \<open>TypeError\<close> for a \<open>str\<close> subscript, a \<open>str\<close> indexed in range gives
  the one-character \<open>str\<close>, and \<open>None\<close>, \<open>bool\<close>, \<open>int\<close> and \<open>float\<close> are not
  subscriptable (\<open>TypeError\<close>).
\<close>

datatype subscript = Key pystr | Index nat

fun getitem :: "pyval \<Rightarrow> subscript \<Rightarrow> exn + pyval" where
  "getitem (PyDict kvs) (Key k) =
     (case map_of kvs k of None \<Rightarrow> Inl (KeyError (PyStr k)) | Some v \<Rightarrow> Inr v)"
| "getitem (PyDict kvs) (Index i) = Inl (KeyError (PyInt (int i)))"
| "getitem (PyList xs) (Index i) = (if i < length xs then Inr (xs ! i) else Inl IndexError)"
| "getitem (PyList xs) (Key k) = Inl TypeError"
| "getitem (PyStr s) (Index i) = (if i < length s then Inr (PyStr [s ! i]) else Inl IndexError)"
| "getitem (PyStr s) (Key k) = Inl TypeError"
| "getitem PyNone sub = Inl TypeError"
| "getitem (PyBool b) sub = Inl TypeError"
| "getitem (PyInt n) sub = Inl TypeError"
| "getitem (PyFloat x) sub = Inl TypeError"

text \<open>A chain of subscriptions \<open>x[s1][s2]...\<close>, evaluated left to right; the first exception
  ends it.\<close>

fun get_path :: "pyval \<Rightarrow> subscript list \<Rightarrow> exn + pyval" where
  "get_path v [] = Inr v"
| "get_path v (s # ss) = (case getitem v s of Inl e \<Rightarrow> Inl e | Inr v' \<Rightarrow> get_path v' ss)"

text \<open>
  The member of a JSON document at a key path, when the document has one: the value of a
  key in an object, the element at an index in an array. This is the document's own
  structure, stated without Python's subscription.
\<close>

fun member_at :: "pyval \<Rightarrow> subscript \<Rightarrow> pyval option" where
  "member_at (PyDict kvs) (Key k) = map_of kvs k"
| "member_at (PyList xs) (Index i) = (if i < length xs then Some (xs ! i) else None)"
| "member_at v sub = None"

fun follow :: "pyval \<Rightarrow> subscript list \<Rightarrow> pyval option" where
  "follow v [] = Some v"
| "follow v (s # ss) = (case member_at v s of None \<Rightarrow> None | Some v' \<Rightarrow> follow v' ss)"

section \<open>Tag extraction: the markup document\<close>

text \<open>
  The notebook's helper is
  \<^verbatim>\<open>
  def extract_by_tag(response: str, tag: str, extract_all=False) -> str | list[str] | None:
      soup = BeautifulSoup(response)
      results = soup.find_all(tag)
      if not results:
          return

      texts = [res.get_text() for res in results]
      if extract_all:
          return texts
      return texts[-1]
  \<close>
  \<open>BeautifulSoup\<close>, \<open>find_all\<close> and \<open>get_text\<close> belong to the \<open>bs4\<close> package, which is not part
  of the notebook. The document that \<open>bs4\<close> builds is modelled as a tree: a document is the
  list of its top-level nodes, and a node is an element (\<open>Tag\<close>) or a string. A string has
  one of the classes of \<open>bs4\<close>: \<open>NavigableString\<close> for ordinary text, the classes of comments,
  declarations and CDATA sections, and the classes that the tree builders for HTML give
  to the text inside \<open>script\<close>, \<open>style\<close>, \<open>template\<close>, \<open>rt\<close> and \<open>rp\<close> elements. An element
  has its name, the string classes that count as its text (\<open>interesting_string_types\<close>,
  set by the tree builder when the element is made) and its children.
  A \<open>str\<close> is a list of characters; the helper never looks at a character, so the type
  \<open>'c\<close> of characters is left open.
\<close>

datatype string_class =
    NavigableString | CData | Comment | Declaration | Doctype | ProcessingInstruction
  | Script | Stylesheet | TemplateString | RubyTextString | RubyParenthesisString

datatype 'c node =
    Tag "'c list" "string_class list" "'c node list"
  | Str string_class "'c list"

text \<open>
  \<open>res.get_text()\<close> with no argument: the strings below the element whose class is one
  of the element's interesting classes, concatenated in document order. A string inside
  a \<open>script\<close> element is the text of that element and not of an element around it.
\<close>

fun strings :: "string_class list \<Rightarrow> 'c node \<Rightarrow> 'c list" where
  "strings types (Tag n ts cs) = concat (map (strings types) cs)"
| "strings types (Str k s) = (if k \<in> set types then s else [])"

fun get_text :: "'c node \<Rightarrow> 'c list" where
  "get_text (Tag n types cs) = concat (map (strings types) cs)"
| "get_text (Str k s) = (if k = NavigableString \<or> k = CData then s else [])"

text \<open>The nodes below a node as the generator \<open>descendants\<close> yields them: a child, then
  what is below it, then the next child.\<close>

fun descendants :: "'c node \<Rightarrow> 'c node list" where
  "descendants (Tag n ts cs) = concat (map (\<lambda>c. c # descendants c) cs)"
| "descendants (Str k s) = []"

definition soup_descendants :: "'c node list \<Rightarrow> 'c node list" where
  "soup_descendants soup = concat (map (\<lambda>c. c # descendants c) soup)"

fun named :: "'c list \<Rightarrow> 'c node \<Rightarrow> bool" where
  "named tag (Tag n ts cs) = (n = tag)"
| "named tag (Str k s) = False"

text \<open>\<open>soup.find_all(tag)\<close> with a string: the elements of that name among the
  descendants of the document, as the generator yields them.\<close>

definition find_all :: "'c node list \<Rightarrow> 'c list \<Rightarrow> 'c node list" where
  "find_all soup tag = filter (named tag) (soup_descendants soup)"

text \<open>The three shapes of the helper's result: \<open>None\<close>, a \<open>str\<close>, a \<open>list[str]\<close>.\<close>

datatype 'c extracted = Absent | Single "'c list" | Many "'c list list"

text \<open>
  The parser (which back end is installed, how it repairs broken markup) is a parameter
  of \<open>extract_by_tag\<close>: it gives the document, or the exception \<open>bs4\<close> raises for markup
  that its parser rejects, which the helper does not catch. \<open>texts[-1]\<close> is read behind
  the guard \<open>if not results: return\<close>, so the list is not empty there and \<open>last\<close> is its
  last element.
\<close>

definition extract_by_tag ::
  "('c list \<Rightarrow> exn + 'c node list) \<Rightarrow> 'c list \<Rightarrow> 'c list \<Rightarrow> bool \<Rightarrow> exn + 'c extracted" where
  "extract_by_tag BeautifulSoup response tag extract_all =
     (case BeautifulSoup response of
        Inl error \<Rightarrow> Inl error
      | Inr soup \<Rightarrow>
          (let results = find_all soup tag
           in if results = [] then Inr Absent
              else let texts = map get_text results
                   in if extract_all then Inr (Many texts) else Inr (Single (last texts))))"

subsection \<open>Document order\<close>

text \<open>
  What the claims call an occurrence and document order, said without the generator: a
  node of a document has a path, the index of a top-level node followed by indices of
  children, and document order is the order of the paths as words (an element before
  what it contains, and all of it before the next sibling). This is the order \<open><\<close> of
  lists of numbers.
\<close>

fun below :: "'c node \<Rightarrow> nat list \<Rightarrow> 'c node option" where
  "below n [] = Some n"
| "below (Tag n ts cs) (i # p) = (if i < length cs then below (cs ! i) p else None)"
| "below (Str k s) (i # p) = None"

fun node_at :: "'c node list \<Rightarrow> nat list \<Rightarrow> 'c node option" where
  "node_at soup [] = None"
| "node_at soup (i # p) = (if i < length soup then below (soup ! i) p else None)"

text \<open>\<open>occurrences soup tag es\<close>: the list \<open>es\<close> holds the elements named \<open>tag\<close> of the
  document, each of them once, in document order.\<close>

definition occurrences :: "'c node list \<Rightarrow> 'c list \<Rightarrow> 'c node list \<Rightarrow> bool" where
  "occurrences soup tag es =
     (\<exists>ps. sorted_wrt (<) ps
          \<and> set ps = {p. \<exists>e. node_at soup p = Some e \<and> named tag e}
          \<and> map (node_at soup) ps = map Some es)"

text \<open>The generator with the path of every node it yields.\<close>

fun walk :: "nat list \<Rightarrow> 'c node \<Rightarrow> (nat list \<times> 'c node) list"
  and walks :: "nat list \<Rightarrow> nat \<Rightarrow> 'c node list \<Rightarrow> (nat list \<times> 'c node) list" where
  "walk p (Tag n ts cs) = (p, Tag n ts cs) # walks p 0 cs"
| "walk p (Str k s) = [(p, Str k s)]"
| "walks p i [] = []"
| "walks p i (c # cs) = walk (p @ [i]) c @ walks p (Suc i) cs"

text \<open>An occurrence of a tag in a text, read off the text alone: a place where the
  start tag \<open><tag>\<close> stands.\<close>

fun is_prefix :: "'a list \<Rightarrow> 'a list \<Rightarrow> bool" where
  "is_prefix [] ys = True"
| "is_prefix (x # xs) [] = False"
| "is_prefix (x # xs) (y # ys) = (x = y \<and> is_prefix xs ys)"

fun count_in_text :: "'a list \<Rightarrow> 'a list \<Rightarrow> nat" where
  "count_in_text pat [] = 0"
| "count_in_text pat (c # cs) = (if is_prefix pat (c # cs) then 1 else 0) + count_in_text pat cs"

definition start_tags_in_text :: "string \<Rightarrow> string \<Rightarrow> nat" where
  "start_tags_in_text tag text = count_in_text (''<'' @ tag @ ''>'') text"

subsection \<open>The document of the html.parser back end\<close>

text \<open>
  To run the helper a parser is needed. \<open>html_parser\<close> follows \<open>bs4\<close> with Python's
  \<open>html.parser\<close> on plain markup: start tags \<open><name>\<close>, \<open><name attributes>\<close> and \<open><name/>\<close>,
  end tags \<open></name>\<close>, and character data. As \<open>html.parser\<close> does, it reads a \<open><\<close> as the
  start of a tag only before a letter (or \<open>/\<close> and a letter), takes the name up to white
  space, \<open>/\<close> or \<open>>\<close> and puts it in lower case; as \<open>bs4\<close> does, it closes a void element
  (\<open>br\<close>, \<open>img\<close>, ...) at once, closes with an end tag the nearest open element of that name
  and every element opened inside it, ignores an end tag that closes nothing, joins the
  character data between two tags into one string, turns a string of white space only
  into one blank or newline (outside \<open>pre\<close> and \<open>textarea\<close>), gives the strings inside
  \<open>script\<close>, \<open>style\<close>, \<open>template\<close>, \<open>rt\<close> and \<open>rp\<close> their classes, and closes at the end of the
  text what is still open.
  It does not follow \<open>html.parser\<close> on character references (\<open>&\<close>), comments, declarations
  and processing instructions (\<open><!\<close>, \<open><?\<close>), a \<open>>\<close> inside a quoted attribute value, or
  tags inside \<open>script\<close> and \<open>style\<close>; the theorems of tag extraction hold for every parser,
  and this one is used on texts without these.
\<close>

datatype token = StartTag string | StartEndTag string | EndTag string | Data string

definition ascii_letter :: "char \<Rightarrow> bool" where
  "ascii_letter c =
     ((65 \<le> (of_char c :: nat) \<and> (of_char c :: nat) \<le> 90)
      \<or> (97 \<le> (of_char c :: nat) \<and> (of_char c :: nat) \<le> 122))"

definition lower_char :: "char \<Rightarrow> char" where
  "lower_char c =
     (if 65 \<le> (of_char c :: nat) \<and> (of_char c :: nat) \<le> 90
      then char_of ((of_char c :: nat) + 32) else c)"

definition ascii_space :: "char \<Rightarrow> bool" where
  "ascii_space c =
     (c = CHR '' '' \<or> c = CHR 0x0A \<or> c = CHR 0x09 \<or> c = CHR 0x0C \<or> c = CHR 0x0D)"

definition name_end :: "char \<Rightarrow> bool" where
  "name_end c = (ascii_space c \<or> c = CHR ''/'' \<or> c = CHR ''>'')"

definition tag_name :: "string \<Rightarrow> string" where
  "tag_name body = map lower_char (takeWhile (\<lambda>c. \<not> name_end c) body)"

text \<open>The token of a tag, from the characters between \<open><\<close> and \<open>>\<close>.\<close>

definition tag_token :: "string \<Rightarrow> token" where
  "tag_token body =
     (if body \<noteq> [] \<and> hd body = CHR ''/'' then EndTag (tag_name (tl body))
      else if body \<noteq> [] \<and> last body = CHR ''/'' then StartEndTag (tag_name body)
      else StartTag (tag_name body))"

definition tag_opens :: "string \<Rightarrow> bool" where
  "tag_opens cs =
     (case cs of
        [] \<Rightarrow> False
      | d # ds \<Rightarrow>
          ascii_letter d
          \<or> (d = CHR ''/'' \<and> (case ds of [] \<Rightarrow> False | e # es \<Rightarrow> ascii_letter e)))"

definition flush :: "string \<Rightarrow> token list" where
  "flush acc = (if acc = [] then [] else [Data (rev acc)])"

text \<open>The tokens of a text; \<open>acc\<close> holds the character data read since the last tag,
  newest first. A \<open><\<close> with no \<open>>\<close> after it is character data.\<close>

function markup_tokens :: "string \<Rightarrow> string \<Rightarrow> token list" where
  "markup_tokens acc [] = flush acc"
| "markup_tokens acc (c # cs) =
     (if c = CHR ''<'' \<and> tag_opens cs \<and> CHR ''>'' \<in> set cs
      then flush acc @ tag_token (takeWhile (\<lambda>d. d \<noteq> CHR ''>'') cs)
           # markup_tokens [] (tl (dropWhile (\<lambda>d. d \<noteq> CHR ''>'') cs))
      else markup_tokens (c # acc) cs)"
  by pat_completeness auto
termination
proof (relation "measure (\<lambda>(acc, text). length text)")
  show "wf (measure (\<lambda>(acc, text). length text))"
    by simp
next
  fix acc :: string and c :: char and cs :: string
  have "length (dropWhile (\<lambda>d. d \<noteq> CHR ''>'') cs) \<le> length cs"
    by (rule length_dropWhile_le)
  then have "length (tl (dropWhile (\<lambda>d. d \<noteq> CHR ''>'') cs)) \<le> length cs"
    by simp
  then show "(([], tl (dropWhile (\<lambda>d. d \<noteq> CHR ''>'') cs)), acc, c # cs)
               \<in> measure (\<lambda>(acc, text). length text)"
    by simp
next
  fix acc :: string and c :: char and cs :: string
  show "((c # acc, cs), acc, c # cs) \<in> measure (\<lambda>(acc, text). length text)"
    by simp
qed

text \<open>The tables of the tree builder for HTML: the elements whose strings have a class
  of their own, the void elements, and the elements that keep their white space.\<close>

definition string_containers :: "string \<Rightarrow> string_class option" where
  "string_containers n =
     (if n = ''rt'' then Some RubyTextString
      else if n = ''rp'' then Some RubyParenthesisString
      else if n = ''style'' then Some Stylesheet
      else if n = ''script'' then Some Script
      else if n = ''template'' then Some TemplateString
      else None)"

definition interesting :: "string \<Rightarrow> string_class list" where
  "interesting n =
     (case string_containers n of Some k \<Rightarrow> [k] | None \<Rightarrow> [NavigableString, CData])"

definition void_element :: "string \<Rightarrow> bool" where
  "void_element n =
     (n \<in> set [''area'', ''base'', ''br'', ''col'', ''embed'', ''hr'', ''img'', ''input'',
               ''keygen'', ''link'', ''menuitem'', ''meta'', ''param'', ''source'', ''track'',
               ''wbr'', ''basefont'', ''bgsound'', ''command'', ''frame'', ''image'',
               ''isindex'', ''nextid'', ''spacer''])"

definition preserves_whitespace :: "string \<Rightarrow> bool" where
  "preserves_whitespace n = (n = ''pre'' \<or> n = ''textarea'')"

text \<open>The builder keeps the children of the element being read (newest first) and, for
  every open element, its name, its interesting classes and the children its parent had
  when it was opened.\<close>

type_synonym open_element = "string \<times> string_class list \<times> char node list"

fun container_class :: "string list \<Rightarrow> string_class" where
  "container_class [] = NavigableString"
| "container_class (n # ns) =
     (case string_containers n of Some k \<Rightarrow> k | None \<Rightarrow> container_class ns)"

text \<open>\<open>endData\<close>: the character data collected since the last tag becomes one string,
  with the class of the innermost open element that has a class of its own.\<close>

definition end_data :: "string list \<Rightarrow> string \<Rightarrow> char node list \<Rightarrow> char node list" where
  "end_data open_names pending cur =
     (if pending = [] then cur
      else Str (container_class open_names)
             (if list_all ascii_space pending \<and> \<not> list_ex preserves_whitespace open_names
              then (if CHR 0x0A \<in> set pending then [CHR 0x0A] else '' '')
              else pending)
           # cur)"

fun pop_to_tag ::
  "string \<Rightarrow> char node list \<Rightarrow> open_element list \<Rightarrow> char node list \<times> open_element list" where
  "pop_to_tag nm cur [] = (cur, [])"
| "pop_to_tag nm cur ((n, ts, up) # st) =
     (if n = nm then (Tag n ts (rev cur) # up, st)
      else pop_to_tag nm (Tag n ts (rev cur) # up) st)"

fun close_all :: "char node list \<Rightarrow> open_element list \<Rightarrow> char node list" where
  "close_all cur [] = rev cur"
| "close_all cur ((n, ts, up) # st) = close_all (Tag n ts (rev cur) # up) st"

text \<open>\<open>closed\<close> is the builder's list of void elements it has closed itself: an end tag
  of such a name is used up against the list, and does not end the character data.\<close>

fun build ::
  "token list \<Rightarrow> string list \<Rightarrow> string \<Rightarrow> char node list \<Rightarrow> open_element list
     \<Rightarrow> char node list" where
  "build [] closed pending cur st = close_all (end_data (map fst st) pending cur) st"
| "build (Data s # ts) closed pending cur st = build ts closed (pending @ s) cur st"
| "build (StartTag n # ts) closed pending cur st =
     (if void_element n
      then build ts (closed @ [n]) []
             (Tag n (interesting n) [] # end_data (map fst st) pending cur) st
      else build ts closed [] [] ((n, interesting n, end_data (map fst st) pending cur) # st))"
| "build (StartEndTag n # ts) closed pending cur st =
     (if n \<in> set closed
      then build ts (remove1 n closed) [] []
             ((n, interesting n, end_data (map fst st) pending cur) # st)
      else build ts closed []
             (Tag n (interesting n) [] # end_data (map fst st) pending cur) st)"
| "build (EndTag n # ts) closed pending cur st =
     (if n \<in> set closed then build ts (remove1 n closed) pending cur st
      else if n \<in> set (map fst st)
      then (case pop_to_tag n (end_data (map fst st) pending cur) st of
              (cur', st') \<Rightarrow> build ts closed [] cur' st')
      else build ts closed [] (end_data (map fst st) pending cur) st)"

definition html_parser :: "string \<Rightarrow> exn + char node list" where
  "html_parser response = Inr (build (markup_tokens [] response) [] [] [] [])"

text \<open>With the \<open>lxml\<close> back end a text without any markup (no \<open><\<close>, no \<open>&\<close>, not only white
  space) becomes a paragraph in the body of an \<open>html\<close> element.\<close>

definition lxml_plain_text :: "string \<Rightarrow> exn + char node list" where
  "lxml_plain_text response =
     Inr [Tag ''html'' [NavigableString, CData]
            [Tag ''body'' [NavigableString, CData]
               [Tag ''p'' [NavigableString, CData] [Str NavigableString response]]]]"

section \<open>The response parsers\<close>

text \<open>
  Amazon Nova: \<^verbatim>\<open>content_text = response_body["output"]["message"]["content"][0]["text"]\<close>.
  Claude (in \<open>bookstore_assistant\<close> and three other cells):
  \<^verbatim>\<open>response_body["content"][0]["text"]\<close>.
\<close>

definition nova_path :: "subscript list" where
  "nova_path = [Key (ascii ''output''), Key (ascii ''message''), Key (ascii ''content''),
                Index 0, Key (ascii ''text'')]"

definition claude_path :: "subscript list" where
  "claude_path = [Key (ascii ''content''), Index 0, Key (ascii ''text'')]"

definition nova_text :: "pyval \<Rightarrow> exn + pyval" where
  "nova_text response_body = get_path response_body nova_path"

definition claude_text :: "pyval \<Rightarrow> exn + pyval" where
  "claude_text response_body = get_path response_body claude_path"

section \<open>The invocation cell and its error branch\<close>

text \<open>
  \<^verbatim>\<open>
  modelId = "us.amazon.nova-lite-v1:0"  # Nova Lite model ID
  accept = 'application/json'
  contentType = 'application/json'

  try:
      response = boto3_bedrock.invoke_model(
          body=body, modelId=modelId, accept=accept, contentType=contentType)
      response_body = json.loads(response.get('body').read())

      # Nova models return response in a different format
      content_text = response_body["output"]["message"]["content"][0]["text"]
      print(content_text)

  except botocore.exceptions.ClientError as error:
      if error.response['Error']['Code'] == 'AccessDeniedException':
             print(f"\x1b[41m{error.response['Error']['Message']}\
                  \nTo troubeshoot this issue please refer to the following resources.\
                   \nhttps://docs.aws.amazon.com/IAM/latest/UserGuide/troubleshoot_access-denied.html\
                   \nhttps://docs.aws.amazon.com/bedrock/latest/userguide/security-iam.html\x1b[0m\n")
      else:
          raise error
  \<close>
  The client is boto3's: \<open>invoke_model\<close> is a parameter. It stands for the call together
  with the reading and deserializing of the body (\<open>json.loads(response.get('body').read())\<close>),
  all three library code: the result is the deserialized body, or the exception raised on
  the way. The cell's result is the exception that leaves it, or the objects it printed.
\<close>

record invoke_args =
  body :: string
  modelId :: string
  accept :: string
  contentType :: string

text \<open>The f-string of the error branch: a backslash at the end of a source line joins the
  next line, whose leading blanks (16, 17 and 17 of them) stay in the string.\<close>

definition access_denied_message :: "pystr \<Rightarrow> pystr" where
  "access_denied_message message =
     [27] @ ascii ''[41m'' @ message
     @ replicate 16 32
     @ [10] @ ascii ''To troubeshoot this issue please refer to the following resources.''
     @ replicate 17 32
     @ [10] @ ascii ''https://docs.aws.amazon.com/IAM/latest/UserGuide/troubleshoot_access-denied.html''
     @ replicate 17 32
     @ [10] @ ascii ''https://docs.aws.amazon.com/bedrock/latest/userguide/security-iam.html''
     @ [27] @ ascii ''[0m'' @ [10]"

definition nova_args :: "string \<Rightarrow> invoke_args" where
  "nova_args request_body =
     \<lparr>body = request_body, modelId = ''us.amazon.nova-lite-v1:0'',
      accept = ''application/json'', contentType = ''application/json''\<rparr>"

definition nova_try :: "(invoke_args \<Rightarrow> exn + pyval) \<Rightarrow> string \<Rightarrow> exn + pyval list" where
  "nova_try invoke_model request_body =
     (case invoke_model (nova_args request_body) of
        Inl error \<Rightarrow> Inl error
      | Inr response_body \<Rightarrow>
          (case nova_text response_body of
             Inl error \<Rightarrow> Inl error
           | Inr content_text \<Rightarrow> Inr [content_text]))"

definition nova_cell :: "(invoke_args \<Rightarrow> exn + pyval) \<Rightarrow> string \<Rightarrow> exn + pyval list" where
  "nova_cell invoke_model request_body =
     (case nova_try invoke_model request_body of
        Inl (ClientError code message) \<Rightarrow>
          (if code = ascii ''AccessDeniedException''
           then Inr [PyStr (access_denied_message message)]
           else Inl (ClientError code message))
      | Inl error \<Rightarrow> Inl error
      | Inr printed \<Rightarrow> Inr printed)"

section \<open>Binary64 arithmetic\<close>

text \<open>
  Python's \<open>float\<close> is the IEEE 754 binary64 format, and \<open>+\<close>, \<open>*\<close> and the conversions
  round the exact result to the nearest number of the format, ties to the even
  significand. The exact results are kept as fractions of natural numbers.
\<close>

text \<open>The number of binary digits of a natural number.\<close>

fun bitlen :: "nat \<Rightarrow> nat" where
  "bitlen n = (if n = 0 then 0 else Suc (bitlen (n div 2)))"

declare bitlen.simps [simp del]

text \<open>\<open>ilog2 p q\<close> is the integer part of the binary logarithm of \<open>p / q\<close>, for \<open>p, q > 0\<close>:
  with \<open>d\<close> the difference of the lengths, \<open>2^(d-1) < p / q < 2^(d+1)\<close>.\<close>

definition ilog2 :: "nat \<Rightarrow> nat \<Rightarrow> int" where
  "ilog2 p q =
     (let d = int (bitlen p) - int (bitlen q)
      in if (if 0 \<le> d then q * 2 ^ nat d \<le> p else q \<le> p * 2 ^ nat (- d)) then d else d - 1)"

text \<open>The integer nearest to \<open>n / d\<close>, the even one of two that are equally near.\<close>

definition round_half_even :: "nat \<Rightarrow> nat \<Rightarrow> nat" where
  "round_half_even n d =
     (let q = n div d; r = n mod d
      in if 2 * r < d then q
         else if d < 2 * r then q + 1
         else if even q then q else q + 1)"

text \<open>
  \<open>round_binary64 s p q\<close> is the binary64 number nearest to \<open>(-1)^s * p / q\<close>, for
  \<open>p, q > 0\<close>. The exponent is that of a 53-bit significand, and not below the least
  exponent \<open>-1074\<close> (there the significand is shorter: a subnormal number, or zero).
  A significand rounded up to \<open>2^53\<close> moves to the next exponent, and a number beyond the
  largest finite one becomes an infinity.
\<close>

definition round_binary64 :: "bool \<Rightarrow> nat \<Rightarrow> nat \<Rightarrow> pyfloat" where
  "round_binary64 s p q =
     (let e = max (ilog2 p q - 52) (- 1074);
          m = (if 0 \<le> e then round_half_even p (q * 2 ^ nat e)
               else round_half_even (p * 2 ^ nat (- e)) q)
      in if m = 2 ^ 53
         then (if 971 < e + 1 then Infinity s else Finite s (2 ^ 52) (e + 1))
         else (if 971 < e then Infinity s else Finite s m e))"

definition float_zero :: pyfloat where
  "float_zero = Finite False 0 (- 1074)"

text \<open>The value of a finite number as an integer multiple of \<open>2^g\<close>, for \<open>g \<le> e\<close>.\<close>

definition scaled :: "int \<Rightarrow> bool \<Rightarrow> nat \<Rightarrow> int \<Rightarrow> int" where
  "scaled g s m e = (if s then - 1 else 1) * int m * 2 ^ nat (e - g)"

text \<open>The exact value \<open>c * 2^g\<close> with \<open>c \<noteq> 0\<close>, rounded.\<close>

definition round_scaled :: "int \<Rightarrow> int \<Rightarrow> pyfloat" where
  "round_scaled c g =
     (if 0 \<le> g then round_binary64 (c < 0) (nat \<bar>c\<bar> * 2 ^ nat g) 1
      else round_binary64 (c < 0) (nat \<bar>c\<bar>) (2 ^ nat (- g)))"

text \<open>\<open>x + y\<close>. A zero operand leaves the other operand as it is; an exact sum of zero is
  \<open>+0.0\<close>, unless both operands are \<open>-0.0\<close>.\<close>

fun float_add :: "pyfloat \<Rightarrow> pyfloat \<Rightarrow> pyfloat" where
  "float_add NaN y = NaN"
| "float_add (Infinity s) NaN = NaN"
| "float_add (Infinity s) (Infinity t) = (if s = t then Infinity s else NaN)"
| "float_add (Infinity s) (Finite t n f) = Infinity s"
| "float_add (Finite s m e) NaN = NaN"
| "float_add (Finite s m e) (Infinity t) = Infinity t"
| "float_add (Finite s m e) (Finite t n f) =
     (if m = 0 \<and> n = 0 then Finite (s \<and> t) 0 (- 1074)
      else if m = 0 then Finite t n f
      else if n = 0 then Finite s m e
      else (let g = min e f;
                c = scaled g s m e + scaled g t n f
            in if c = 0 then Finite False 0 (- 1074) else round_scaled c g))"

text \<open>\<open>x * y\<close>. The sign of a zero product is the product of the signs; an infinity times
  zero is not a number.\<close>

fun float_mul :: "pyfloat \<Rightarrow> pyfloat \<Rightarrow> pyfloat" where
  "float_mul NaN y = NaN"
| "float_mul (Infinity s) NaN = NaN"
| "float_mul (Infinity s) (Infinity t) = Infinity (s \<noteq> t)"
| "float_mul (Infinity s) (Finite t n f) = (if n = 0 then NaN else Infinity (s \<noteq> t))"
| "float_mul (Finite s m e) NaN = NaN"
| "float_mul (Finite s m e) (Infinity t) = (if m = 0 then NaN else Infinity (s \<noteq> t))"
| "float_mul (Finite s m e) (Finite t n f) =
     (if m * n = 0 then Finite (s \<noteq> t) 0 (- 1074)
      else round_scaled ((if s \<noteq> t then - 1 else 1) * int (m * n)) (e + f))"

text \<open>\<open>x > y\<close>: false when either side is not a number; the two zeros are equal.\<close>

fun float_gt :: "pyfloat \<Rightarrow> pyfloat \<Rightarrow> bool" where
  "float_gt NaN y = False"
| "float_gt (Infinity s) NaN = False"
| "float_gt (Infinity s) (Infinity t) = (\<not> s \<and> t)"
| "float_gt (Infinity s) (Finite t n f) = (\<not> s)"
| "float_gt (Finite s m e) NaN = False"
| "float_gt (Finite s m e) (Infinity t) = t"
| "float_gt (Finite s m e) (Finite t n f) =
     (let g = min e f in scaled g t n f < scaled g s m e)"

text \<open>The conversion of an \<open>int\<close> operand, as in \<open>price * units\<close>: the nearest float, and
  \<open>OverflowError\<close> for an \<open>int\<close> too large to convert.\<close>

definition float_of_int :: "int \<Rightarrow> exn + pyfloat" where
  "float_of_int n =
     (if n = 0 then Inr float_zero
      else (case round_binary64 (n < 0) (nat \<bar>n\<bar>) 1 of
              Infinity s \<Rightarrow> Inl OverflowError
            | x \<Rightarrow> Inr x))"

section \<open>The sales analysis\<close>

text \<open>
  The sample program of the code generation use case:
  \<^verbatim>\<open>
  revenue = 0
  monthly_revenue = defaultdict(int)
  product_revenue = defaultdict(int)
  max_revenue = 0
  max_revenue_date = ''
  max_revenue_product = ''

  with open('sales.csv') as f:
      reader = csv.reader(f)
      next(reader)
      for row in reader:
          date = row[0]
          product = row[1]
          price = float(row[2])
          units = int(row[3])

          revenue += price * units
          product_revenue[product] += price * units
          monthly_revenue[date[:7]] += price * units

          if revenue > max_revenue:
              max_revenue = revenue
              max_revenue_date = date
              max_revenue_product = product
  \<close>
  The input is the list of rows that \<open>csv.reader\<close> yields, each a list of strings. The
  builtin conversions \<open>float(...)\<close> and \<open>int(...)\<close> of a string are parameters
  (\<open>py_float\<close>, \<open>py_int\<close>); they raise \<open>ValueError\<close> on a string they cannot read.
  The \<open>int\<close> zero that \<open>revenue\<close>, \<open>max_revenue\<close> and the dictionaries start from is
  converted to \<open>0.0\<close> by the first addition of a float and compares like \<open>0.0\<close>, so
  the totals are floats from the start.
\<close>

record 'c sales =
  revenue :: pyfloat
  monthly_revenue :: "('c list \<times> pyfloat) list"
  product_revenue :: "('c list \<times> pyfloat) list"
  max_revenue :: pyfloat
  max_revenue_date :: "'c list"
  max_revenue_product :: "'c list"

definition sales_start :: "'c sales" where
  "sales_start =
     \<lparr>revenue = float_zero, monthly_revenue = [], product_revenue = [],
      max_revenue = float_zero, max_revenue_date = [], max_revenue_product = []\<rparr>"

text \<open>\<open>row[i]\<close> for an index \<open>i \<ge> 0\<close>.\<close>

definition item :: "'a list \<Rightarrow> nat \<Rightarrow> exn + 'a" where
  "item xs i = (if i < length xs then Inr (xs ! i) else Inl IndexError)"

text \<open>\<open>d[k] += v\<close> on a \<open>defaultdict(int)\<close>: a new key starts from zero and goes last.\<close>

fun dict_add :: "'k \<Rightarrow> pyfloat \<Rightarrow> ('k \<times> pyfloat) list \<Rightarrow> ('k \<times> pyfloat) list" where
  "dict_add k v [] = [(k, float_add float_zero v)]"
| "dict_add k v ((k', x) # kvs) =
     (if k' = k then (k', float_add x v) # kvs else (k', x) # dict_add k v kvs)"

text \<open>The four assignments at the head of the loop body, in their order.\<close>

definition read_row ::
  "('c list \<Rightarrow> exn + pyfloat) \<Rightarrow> ('c list \<Rightarrow> exn + int) \<Rightarrow> 'c list list
     \<Rightarrow> exn + ('c list \<times> 'c list \<times> pyfloat \<times> int)" where
  "read_row py_float py_int row =
     (case item row 0 of Inl e \<Rightarrow> Inl e | Inr date \<Rightarrow>
      (case item row 1 of Inl e \<Rightarrow> Inl e | Inr product \<Rightarrow>
       (case item row 2 of Inl e \<Rightarrow> Inl e | Inr price_field \<Rightarrow>
        (case py_float price_field of Inl e \<Rightarrow> Inl e | Inr price \<Rightarrow>
         (case item row 3 of Inl e \<Rightarrow> Inl e | Inr units_field \<Rightarrow>
          (case py_int units_field of Inl e \<Rightarrow> Inl e | Inr units \<Rightarrow>
             Inr (date, product, price, units)))))))"

text \<open>\<open>price * units\<close>, a \<open>float\<close> times an \<open>int\<close>.\<close>

definition amount :: "pyfloat \<Rightarrow> int \<Rightarrow> exn + pyfloat" where
  "amount price units =
     (case float_of_int units of Inl e \<Rightarrow> Inl e | Inr u \<Rightarrow> Inr (float_mul price u))"

definition sales_row ::
  "('c list \<Rightarrow> exn + pyfloat) \<Rightarrow> ('c list \<Rightarrow> exn + int) \<Rightarrow> 'c sales \<Rightarrow> 'c list list
     \<Rightarrow> exn + 'c sales" where
  "sales_row py_float py_int st row =
     (case read_row py_float py_int row of
        Inl e \<Rightarrow> Inl e
      | Inr (date, product, price, units) \<Rightarrow>
          (case amount price units of
             Inl e \<Rightarrow> Inl e
           | Inr a \<Rightarrow>
               (let revenue' = float_add (revenue st) a;
                    st' = st\<lparr>revenue := revenue',
                             product_revenue := dict_add product a (product_revenue st),
                             monthly_revenue := dict_add (take 7 date) a (monthly_revenue st)\<rparr>
                in if float_gt revenue' (max_revenue st)
                   then Inr (st'\<lparr>max_revenue := revenue', max_revenue_date := date,
                                  max_revenue_product := product\<rparr>)
                   else Inr st')))"

fun sales_loop ::
  "('c list \<Rightarrow> exn + pyfloat) \<Rightarrow> ('c list \<Rightarrow> exn + int) \<Rightarrow> 'c sales \<Rightarrow> 'c list list list
     \<Rightarrow> exn + 'c sales" where
  "sales_loop py_float py_int st [] = Inr st"
| "sales_loop py_float py_int st (row # rows) =
     (case sales_row py_float py_int st row of
        Inl e \<Rightarrow> Inl e
      | Inr st' \<Rightarrow> sales_loop py_float py_int st' rows)"

text \<open>\<open>next(reader)\<close> skips the header row and raises \<open>StopIteration\<close> on an empty file.\<close>

definition sales_analysis ::
  "('c list \<Rightarrow> exn + pyfloat) \<Rightarrow> ('c list \<Rightarrow> exn + int) \<Rightarrow> 'c list list list
     \<Rightarrow> exn + 'c sales" where
  "sales_analysis py_float py_int csv_rows =
     (case csv_rows of
        [] \<Rightarrow> Inl StopIteration
      | header # data \<Rightarrow> sales_loop py_float py_int sales_start data)"

text \<open>
  Two conditions on the data rows. A row is positive when it can be read and its
  \<open>price * units\<close> is greater than zero. The rows raise a running total when each of them
  can be read and its \<open>price * units\<close>, added to the total of the rows before it, gives a
  float greater than that total.
\<close>

definition positive_row ::
  "('c list \<Rightarrow> exn + pyfloat) \<Rightarrow> ('c list \<Rightarrow> exn + int) \<Rightarrow> 'c list list \<Rightarrow> bool" where
  "positive_row py_float py_int row =
     (case read_row py_float py_int row of
        Inl e \<Rightarrow> False
      | Inr (date, product, price, units) \<Rightarrow>
          (case amount price units of Inl e \<Rightarrow> False | Inr a \<Rightarrow> float_gt a float_zero))"

fun raises_total ::
  "('c list \<Rightarrow> exn + pyfloat) \<Rightarrow> ('c list \<Rightarrow> exn + int) \<Rightarrow> pyfloat \<Rightarrow> 'c list list list
     \<Rightarrow> bool" where
  "raises_total py_float py_int so_far [] = True"
| "raises_total py_float py_int so_far (row # rows) =
     (case read_row py_float py_int row of
        Inl e \<Rightarrow> False
      | Inr (date, product, price, units) \<Rightarrow>
          (case amount price units of
             Inl e \<Rightarrow> False
           | Inr a \<Rightarrow> float_gt (float_add so_far a) so_far
                      \<and> raises_total py_float py_int (float_add so_far a) rows))"

subsection \<open>Decimal fields\<close>

text \<open>
  The conversions for the fields of the notebook's \<open>sales.csv\<close>, strings of decimal
  digits: \<open>int\<close> gives the number, \<open>float\<close> the float nearest to it. Python's conversions
  read more (signs, blanks, fractions, exponents); these two refuse every other string
  and are only used to run the program on such files.
\<close>

definition digit_value :: "char \<Rightarrow> nat option" where
  "digit_value c =
     (let n = of_char c in if 48 \<le> n \<and> n \<le> 57 then Some (n - 48) else None)"

fun digits_value :: "nat \<Rightarrow> string \<Rightarrow> nat option" where
  "digits_value acc [] = Some acc"
| "digits_value acc (c # cs) =
     (case digit_value c of None \<Rightarrow> None | Some d \<Rightarrow> digits_value (10 * acc + d) cs)"

definition int_of_digits :: "string \<Rightarrow> exn + int" where
  "int_of_digits s =
     (if s = [] then Inl ValueError
      else (case digits_value 0 s of None \<Rightarrow> Inl ValueError | Some n \<Rightarrow> Inr (int n)))"

definition float_of_digits :: "string \<Rightarrow> exn + pyfloat" where
  "float_of_digits s =
     (if s = [] then Inl ValueError
      else (case digits_value 0 s of
              None \<Rightarrow> Inl ValueError
            | Some n \<Rightarrow> Inr (if n = 0 then float_zero else round_binary64 False n 1)))"

text \<open>The rows of the file that the notebook writes with \<open>csv.writer\<close>.\<close>

definition sales_csv :: "string list list" where
  "sales_csv =
     [[''date'', ''product_id'', ''price'', ''units_sold''],
      [''2023-01-01'', ''P001'', ''50'', ''20''],
      [''2023-01-02'', ''P002'', ''60'', ''15''],
      [''2023-01-03'', ''P001'', ''50'', ''18''],
      [''2023-01-04'', ''P003'', ''70'', ''30''],
      [''2023-01-05'', ''P001'', ''50'', ''25''],
      [''2023-01-06'', ''P002'', ''60'', ''22''],
      [''2023-01-07'', ''P003'', ''70'', ''24''],
      [''2023-01-08'', ''P001'', ''50'', ''28''],
      [''2023-01-09'', ''P002'', ''60'', ''17''],
      [''2023-01-10'', ''P003'', ''70'', ''29''],
      [''2023-02-11'', ''P001'', ''50'', ''23''],
      [''2023-02-12'', ''P002'', ''60'', ''19''],
      [''2023-02-13'', ''P001'', ''50'', ''21''],
      [''2023-02-14'', ''P003'', ''70'', ''31''],
      [''2023-03-15'', ''P001'', ''50'', ''26''],
      [''2023-03-16'', ''P002'', ''60'', ''20''],
      [''2023-03-17'', ''P003'', ''70'', ''33''],
      [''2023-04-18'', ''P001'', ''50'', ''27''],
      [''2023-04-19'', ''P002'', ''60'', ''18''],
      [''2023-04-20'', ''P003'', ''70'', ''32''],
      [''2023-04-21'', ''P001'', ''50'', ''22''],
      [''2023-04-22'', ''P002'', ''60'', ''16''],
      [''2023-04-23'', ''P003'', ''70'', ''34''],
      [''2023-05-24'', ''P001'', ''50'', ''24''],
      [''2023-05-25'', ''P002'', ''60'', ''21'']]"

section \<open>Printing numbers\<close>

text \<open>\<open>repr\<close> of an \<open>int\<close>: its decimal digits, with a minus sign when negative.\<close>

definition digit_char :: "nat \<Rightarrow> char" where
  "digit_char d = char_of (48 + d)"

fun digits_of :: "nat \<Rightarrow> string" where
  "digits_of n = (if n < 10 then [digit_char n] else digits_of (n div 10) @ [digit_char (n mod 10)])"

declare digits_of.simps [simp del]

definition int_repr :: "int \<Rightarrow> string" where
  "int_repr n = (if n < 0 then CHR ''-'' # digits_of (nat (- n)) else digits_of (nat n))"

text \<open>
  \<open>repr\<close> of a \<open>float\<close> is the shortest decimal that rounds to the float, and of several
  of that length the nearest one. For a positive \<open>p / q\<close>, \<open>decimal_point\<close> is the position
  \<open>d\<close> of the decimal point: \<open>10^(d-1) \<le> p / q < 10^d\<close>.
\<close>

function leading_zeros :: "nat \<Rightarrow> nat \<Rightarrow> nat" where
  "leading_zeros p q = (if 0 < p \<and> 10 * p < q then Suc (leading_zeros (10 * p) q) else 0)"
  by pat_completeness auto
termination
  by (relation "measure (\<lambda>(p, q). q - p)") auto

declare leading_zeros.simps [simp del]

definition decimal_point :: "nat \<Rightarrow> nat \<Rightarrow> int" where
  "decimal_point p q =
     (if q \<le> p then int (length (digits_of (p div q))) else - int (leading_zeros p q))"

text \<open>The float nearest to the decimal \<open>c * 10^scale\<close>, for \<open>c > 0\<close>.\<close>

definition round_decimal :: "bool \<Rightarrow> nat \<Rightarrow> int \<Rightarrow> pyfloat" where
  "round_decimal s c scale =
     (if 0 \<le> scale then round_binary64 s (c * 10 ^ nat scale) 1
      else round_binary64 s c (10 ^ nat (- scale)))"

text \<open>
  The search for the shortest decimal of the float \<open>x\<close>, whose exact value is
  \<open>(-1)^s * p / q\<close>. With \<open>k\<close> digits the two candidates are the \<open>k\<close>-digit decimals just
  below and just above the value. Seventeen digits always tell a binary64 number from
  its neighbours, so the search ends with the nearest 17-digit decimal.
\<close>

fun shortest_decimal ::
  "nat \<Rightarrow> pyfloat \<Rightarrow> bool \<Rightarrow> nat \<Rightarrow> nat \<Rightarrow> int \<Rightarrow> nat \<Rightarrow> nat \<times> int" where
  "shortest_decimal 0 x s p q d k =
     (let scale = d - int k;
          num = (if 0 \<le> scale then p else p * 10 ^ nat (- scale));
          den = (if 0 \<le> scale then q * 10 ^ nat scale else q)
      in (round_half_even num den, scale))"
| "shortest_decimal (Suc fuel) x s p q d k =
     (let scale = d - int k;
          num = (if 0 \<le> scale then p else p * 10 ^ nat (- scale));
          den = (if 0 \<le> scale then q * 10 ^ nat scale else q);
          lo = num div den;
          hi = lo + 1;
          lo_ok = (0 < lo \<and> round_decimal s lo scale = x);
          hi_ok = (round_decimal s hi scale = x)
      in if lo_ok \<and> hi_ok then (round_half_even num den, scale)
         else if lo_ok then (lo, scale)
         else if hi_ok then (hi, scale)
         else shortest_decimal fuel x s p q d (Suc k))"

text \<open>Trailing zeros are not digits of the shortest decimal.\<close>

definition strip_zeros :: "string \<Rightarrow> string" where
  "strip_zeros ds = rev (dropWhile (\<lambda>c. c = CHR ''0'') (rev ds))"

text \<open>
  The layout of \<open>repr\<close>, from the digits \<open>ds\<close> and the position \<open>d\<close> of the decimal
  point (the value is \<open>0.ds * 10^d\<close>): exponent notation when \<open>d \<le> -4\<close> or \<open>d > 16\<close>, with
  a sign and at least two digits of exponent; otherwise positional notation, with
  \<open>.0\<close> added to a whole number.
\<close>

definition exponent_digits :: "nat \<Rightarrow> string" where
  "exponent_digits n = (if n < 10 then CHR ''0'' # digits_of n else digits_of n)"

definition float_layout :: "string \<Rightarrow> int \<Rightarrow> string" where
  "float_layout ds d =
     (if d \<le> - 4 \<or> 16 < d
      then hd ds # (if tl ds = [] then [] else CHR ''.'' # tl ds)
           @ CHR ''e'' # (if d - 1 < 0 then CHR ''-'' else CHR ''+'')
           # exponent_digits (nat \<bar>d - 1\<bar>)
      else if d \<le> 0 then ''0.'' @ replicate (nat (- d)) (CHR ''0'') @ ds
      else if nat d < length ds then take (nat d) ds @ CHR ''.'' # drop (nat d) ds
      else ds @ replicate (nat d - length ds) (CHR ''0'') @ ''.0'')"

definition float_digits :: "bool \<Rightarrow> nat \<Rightarrow> int \<Rightarrow> string \<times> int" where
  "float_digits s m e =
     (let p = (if 0 \<le> e then m * 2 ^ nat e else m);
          q = (if 0 \<le> e then 1 else 2 ^ nat (- e));
          (c, scale) = shortest_decimal 16 (Finite s m e) s p q (decimal_point p q) 1;
          ds = digits_of c
      in (strip_zeros ds, int (length ds) + scale))"

fun float_repr :: "pyfloat \<Rightarrow> string" where
  "float_repr NaN = ''nan''"
| "float_repr (Infinity s) = (if s then ''-inf'' else ''inf'')"
| "float_repr (Finite s m e) =
     (if s then ''-'' else '''')
     @ (if m = 0 then ''0.0''
        else (case float_digits s m e of (ds, d) \<Rightarrow> float_layout ds d))"

section \<open>json.dumps\<close>

text \<open>
  \<open>json.dumps\<close> with its defaults, as the notebook calls it: items separated by \<open>", "\<close>,
  keys from values by \<open>": "\<close>, the keys of a \<open>dict\<close> in insertion order, and
  \<open>ensure_ascii\<close>: in a string, the quote and the backslash are escaped with a
  backslash, the control characters \<open>\b \f \n \r \t\<close> by their letters, and every other
  character outside \<open>' '\<close> .. \<open>'~'\<close> as \<open>\uXXXX\<close> with four lower-case hexadecimal digits,
  a code point from \<open>0x10000\<close> on as a pair of surrogates. A finite \<open>float\<close> is written
  with \<open>repr\<close>, the others as \<open>NaN\<close>, \<open>Infinity\<close> and \<open>-Infinity\<close> (\<open>allow_nan\<close>).
  The text is ASCII, a \<open>string\<close> of 8-bit characters.
\<close>

definition hex_char :: "nat \<Rightarrow> char" where
  "hex_char d = (if d < 10 then char_of (48 + d) else char_of (87 + d))"

definition hex4 :: "nat \<Rightarrow> string" where
  "hex4 n = [hex_char (n div 4096 mod 16), hex_char (n div 256 mod 16),
             hex_char (n div 16 mod 16), hex_char (n mod 16)]"

definition escape_char :: "nat \<Rightarrow> string" where
  "escape_char c =
     (if c = 34 then [CHR 0x5C, CHR 0x22]
      else if c = 92 then [CHR 0x5C, CHR 0x5C]
      else if c = 10 then [CHR 0x5C, CHR ''n'']
      else if c = 13 then [CHR 0x5C, CHR ''r'']
      else if c = 9 then [CHR 0x5C, CHR ''t'']
      else if c = 8 then [CHR 0x5C, CHR ''b'']
      else if c = 12 then [CHR 0x5C, CHR ''f'']
      else if 32 \<le> c \<and> c \<le> 126 then [char_of c]
      else if c < 65536 then CHR 0x5C # CHR ''u'' # hex4 c
      else CHR 0x5C # CHR ''u'' # hex4 (55296 + (c - 65536) div 1024 mod 1024)
           @ CHR 0x5C # CHR ''u'' # hex4 (56320 + (c - 65536) mod 1024))"

definition encode_string :: "pystr \<Rightarrow> string" where
  "encode_string s = CHR 0x22 # concat (map escape_char s) @ [CHR 0x22]"

fun join_items :: "string list \<Rightarrow> string" where
  "join_items [] = []"
| "join_items [x] = x"
| "join_items (x # y # ys) = x @ '', '' @ join_items (y # ys)"

definition float_str :: "pyfloat \<Rightarrow> string" where
  "float_str x =
     (case x of
        NaN \<Rightarrow> ''NaN''
      | Infinity s \<Rightarrow> (if s then ''-Infinity'' else ''Infinity'')
      | Finite s m e \<Rightarrow> float_repr x)"

fun dumps :: "pyval \<Rightarrow> string" where
  "dumps PyNone = ''null''"
| "dumps (PyBool b) = (if b then ''true'' else ''false'')"
| "dumps (PyInt n) = int_repr n"
| "dumps (PyFloat x) = float_str x"
| "dumps (PyStr s) = encode_string s"
| "dumps (PyList xs) = ''['' @ join_items (map dumps xs) @ '']''"
| "dumps (PyDict kvs) =
     ''{'' @ join_items (map (\<lambda>kv. encode_string (fst kv) @ '': '' @ dumps (snd kv)) kvs) @ ''}''"

section \<open>Reading JSON\<close>

text \<open>
  The grammar of JSON (RFC 8259), to say what a syntactically valid text is and what it
  holds. A text is cut into tokens and the tokens are parsed into a tree in which a
  number is still the literal that was written.
\<close>

datatype jtoken =
    LBrace | RBrace | LBracket | RBracket | Colon | Comma
  | StringT pystr
  | NumberT string
  | WordT string

datatype json =
    JNull
  | JBool bool
  | JNumber string
  | JString pystr
  | JArray "json list"
  | JObject "(pystr \<times> json) list"

subsection \<open>Tokens\<close>

definition hex_value :: "char \<Rightarrow> nat option" where
  "hex_value c =
     (let n = of_char c
      in if 48 \<le> n \<and> n \<le> 57 then Some (n - 48)
         else if 97 \<le> n \<and> n \<le> 102 then Some (n - 87)
         else if 65 \<le> n \<and> n \<le> 70 then Some (n - 55)
         else None)"

fun hex4_value :: "char \<Rightarrow> char \<Rightarrow> char \<Rightarrow> char \<Rightarrow> nat option" where
  "hex4_value a b c d =
     (case (hex_value a, hex_value b, hex_value c, hex_value d) of
        (Some x, Some y, Some z, Some w) \<Rightarrow> Some (4096 * x + 256 * y + 16 * z + w)
      | _ \<Rightarrow> None)"

definition simple_escape :: "char \<Rightarrow> nat option" where
  "simple_escape c =
     (if c = CHR 0x22 then Some 34
      else if c = CHR 0x5C then Some 92
      else if c = CHR ''/'' then Some 47
      else if c = CHR ''b'' then Some 8
      else if c = CHR ''f'' then Some 12
      else if c = CHR ''n'' then Some 10
      else if c = CHR ''r'' then Some 13
      else if c = CHR ''t'' then Some 9
      else None)"

text \<open>A low surrogate escape \<open>\uDC00\<close> .. \<open>\uDFFF\<close> at the head of the text.\<close>

fun low_surrogate :: "string \<Rightarrow> (nat \<times> string) option" where
  "low_surrogate (b # u # x # y # z # w # rest) =
     (if b = CHR 0x5C \<and> u = CHR ''u''
      then (case hex4_value x y z w of
              None \<Rightarrow> None
            | Some n \<Rightarrow> if 56320 \<le> n \<and> n \<le> 57343 then Some (n, rest) else None)
      else None)"
| "low_surrogate s = None"

definition with_char :: "nat \<Rightarrow> (pystr \<times> string) option \<Rightarrow> (pystr \<times> string) option" where
  "with_char c r = (case r of None \<Rightarrow> None | Some (s, rest) \<Rightarrow> Some (c # s, rest))"

text \<open>
  The characters of a string after its opening quote, up to the closing quote, and the
  text after it. A control character must be escaped; a high surrogate escape followed
  by a low surrogate escape is one code point.
\<close>

fun scan_string :: "string \<Rightarrow> (pystr \<times> string) option" where
  "scan_string [] = None"
| "scan_string (c # cs) =
     (if c = CHR 0x22 then Some ([], cs)
      else if c = CHR 0x5C then
        (case cs of
           [] \<Rightarrow> None
         | e # rest \<Rightarrow>
             if e = CHR ''u'' then
               (case rest of
                  x # y # z # w # rest' \<Rightarrow>
                    (case hex4_value x y z w of
                       None \<Rightarrow> None
                     | Some n \<Rightarrow>
                         if 55296 \<le> n \<and> n \<le> 56319 then
                           (case low_surrogate rest' of
                              Some (n', rest'') \<Rightarrow>
                                with_char (65536 + 1024 * (n - 55296) + (n' - 56320))
                                  (scan_string (drop 6 rest'))
                            | None \<Rightarrow> with_char n (scan_string rest'))
                         else with_char n (scan_string rest'))
                | _ \<Rightarrow> None)
             else
               (case simple_escape e of
                  None \<Rightarrow> None
                | Some n \<Rightarrow> with_char n (scan_string rest)))
      else if of_char c < (32 :: nat) then None
      else with_char (of_char c) (scan_string cs))"

lemma scan_string_shorter: "scan_string s = Some (t, rest) \<Longrightarrow> length rest < length s"
proof (induction s arbitrary: t rule: scan_string.induct)
  case 1
  then show ?case by simp
next
  case (2 c cs)
  show ?case
    using "2.prems" "2.IH"
    by (fastforce simp: with_char_def
          split: if_splits list.splits option.splits prod.splits)
qed

definition is_space :: "char \<Rightarrow> bool" where
  "is_space c = (c = CHR '' '' \<or> c = CHR 0x09 \<or> c = CHR 0x0A \<or> c = CHR 0x0D)"

definition is_digit :: "char \<Rightarrow> bool" where
  "is_digit c = (48 \<le> (of_char c :: nat) \<and> (of_char c :: nat) \<le> 57)"

definition is_letter :: "char \<Rightarrow> bool" where
  "is_letter c = ((97 \<le> (of_char c :: nat) \<and> (of_char c :: nat) \<le> 122)
                  \<or> (65 \<le> (of_char c :: nat) \<and> (of_char c :: nat) \<le> 90))"

text \<open>The characters a number is written with; a number ends where they end.\<close>

definition number_char :: "char \<Rightarrow> bool" where
  "number_char c =
     (is_digit c \<or> c = CHR ''-'' \<or> c = CHR ''+'' \<or> c = CHR ''.'' \<or> c = CHR ''e'' \<or> c = CHR ''E'')"

definition with_token :: "jtoken \<Rightarrow> jtoken list option \<Rightarrow> jtoken list option" where
  "with_token t r = map_option (Cons t) r"

text \<open>The token at the head of a text that starts with the character \<open>c\<close> (no white
  space), and the text after it.\<close>

definition next_token :: "char \<Rightarrow> string \<Rightarrow> (jtoken \<times> string) option" where
  "next_token c cs =
     (if c = CHR ''{'' then Some (LBrace, cs)
      else if c = CHR ''}'' then Some (RBrace, cs)
      else if c = CHR ''['' then Some (LBracket, cs)
      else if c = CHR '']'' then Some (RBracket, cs)
      else if c = CHR '':'' then Some (Colon, cs)
      else if c = CHR '','' then Some (Comma, cs)
      else if c = CHR 0x22 then
        (case scan_string cs of
           None \<Rightarrow> None
         | Some (s, rest) \<Rightarrow> Some (StringT s, rest))
      else if is_digit c \<or> c = CHR ''-'' then
        Some (NumberT (c # takeWhile number_char cs), dropWhile number_char cs)
      else if is_letter c then
        Some (WordT (c # takeWhile is_letter cs), dropWhile is_letter cs)
      else None)"

lemma next_token_shorter:
  assumes "next_token c cs = Some (t, rest)"
  shows "length rest \<le> length cs"
proof (cases "c = CHR 0x22")
  case True
  with assms obtain s where "scan_string cs = Some (s, rest)"
    by (auto simp: next_token_def split: option.splits)
  from scan_string_shorter [OF this] show ?thesis
    by simp
next
  case False
  have "length (dropWhile number_char cs) \<le> length cs"
       "length (dropWhile is_letter cs) \<le> length cs"
    by (simp_all add: length_dropWhile_le)
  with False assms show ?thesis
    by (simp add: next_token_def split: if_splits)
qed

function json_tokens :: "string \<Rightarrow> jtoken list option" where
  "json_tokens [] = Some []"
| "json_tokens (c # cs) =
     (if is_space c then json_tokens cs
      else (case next_token c cs of
              None \<Rightarrow> None
            | Some (t, rest) \<Rightarrow> with_token t (json_tokens rest)))"
  by pat_completeness auto
termination
proof (relation "measure length")
  show "wf (measure length)"
    by simp
next
  fix c :: char and cs :: string
  show "(cs, c # cs) \<in> measure length"
    by simp
next
  fix c :: char and cs :: string and x2 :: "jtoken \<times> string" and t rest
  assume "next_token c cs = Some x2" and "(t, rest) = x2"
  then have "next_token c cs = Some (t, rest)"
    by simp
  from next_token_shorter [OF this] show "(rest, c # cs) \<in> measure length"
    by simp
qed

subsection \<open>Numbers\<close>

text \<open>
  A number is an optional minus sign, an integer part (\<open>0\<close>, or digits not starting with
  \<open>0\<close>), an optional fraction (a point and digits) and an optional exponent (\<open>e\<close> or \<open>E\<close>,
  an optional sign, digits).
\<close>

definition is_exponent :: "string \<Rightarrow> bool" where
  "is_exponent s =
     (case s of
        [] \<Rightarrow> True
      | c # cs \<Rightarrow>
          (c = CHR ''e'' \<or> c = CHR ''E'')
          \<and> (let ds = (case cs of
                          [] \<Rightarrow> []
                        | g # gs \<Rightarrow> if g = CHR ''+'' \<or> g = CHR ''-'' then gs else cs)
             in ds \<noteq> [] \<and> list_all is_digit ds))"

definition is_fraction :: "string \<Rightarrow> bool" where
  "is_fraction s =
     (case s of
        [] \<Rightarrow> True
      | c # cs \<Rightarrow>
          if c = CHR ''.''
          then takeWhile is_digit cs \<noteq> [] \<and> is_exponent (dropWhile is_digit cs)
          else is_exponent s)"

definition is_number :: "string \<Rightarrow> bool" where
  "is_number s =
     (let u = (case s of [] \<Rightarrow> [] | c # cs \<Rightarrow> if c = CHR ''-'' then cs else s);
          ip = takeWhile is_digit u
      in ip \<noteq> [] \<and> (ip = ''0'' \<or> hd ip \<noteq> CHR ''0'') \<and> is_fraction (dropWhile is_digit u))"

subsection \<open>Values\<close>

text \<open>
  The parser reads one value from the head of the tokens and returns it with the tokens
  that follow. The first argument bounds the number of nested calls; each call reads at
  least one token, so the number of tokens is enough.
\<close>

definition atom :: "jtoken \<Rightarrow> json option" where
  "atom t =
     (case t of
        StringT s \<Rightarrow> Some (JString s)
      | NumberT l \<Rightarrow> (if is_number l then Some (JNumber l) else None)
      | WordT w \<Rightarrow>
          (if w = ''null'' then Some JNull
           else if w = ''true'' then Some (JBool True)
           else if w = ''false'' then Some (JBool False)
           else None)
      | _ \<Rightarrow> None)"

definition key_of :: "jtoken \<Rightarrow> pystr option" where
  "key_of t = (case t of StringT k \<Rightarrow> Some k | _ \<Rightarrow> None)"

text \<open>What the parser is reading: a value; the rest of an array after some elements;
  a member of an object; the rest of an object after some members.\<close>

datatype reading =
    Value
  | Elements "json list"
  | Member "(pystr \<times> json) list"
  | Members "(pystr \<times> json) list"

fun parse :: "nat \<Rightarrow> reading \<Rightarrow> jtoken list \<Rightarrow> (json \<times> jtoken list) option" where
  "parse 0 r ts = None"
| "parse (Suc n) r [] = None"
| "parse (Suc n) Value (t # ts) =
     (if t = LBracket then
        (if ts \<noteq> [] \<and> hd ts = RBracket then Some (JArray [], tl ts)
         else (case parse n Value ts of
                 None \<Rightarrow> None
               | Some (v, ts') \<Rightarrow> parse n (Elements [v]) ts'))
      else if t = LBrace then
        (if ts \<noteq> [] \<and> hd ts = RBrace then Some (JObject [], tl ts)
         else parse n (Member []) ts)
      else (case atom t of None \<Rightarrow> None | Some v \<Rightarrow> Some (v, ts)))"
| "parse (Suc n) (Elements acc) (t # ts) =
     (if t = RBracket then Some (JArray (rev acc), ts)
      else if t = Comma then
        (case parse n Value ts of
           None \<Rightarrow> None
         | Some (v, ts') \<Rightarrow> parse n (Elements (v # acc)) ts')
      else None)"
| "parse (Suc n) (Member acc) (t # ts) =
     (case key_of t of
        None \<Rightarrow> None
      | Some k \<Rightarrow>
          if ts \<noteq> [] \<and> hd ts = Colon then
            (case parse n Value (tl ts) of
               None \<Rightarrow> None
             | Some (v, ts') \<Rightarrow> parse n (Members ((k, v) # acc)) ts')
          else None)"
| "parse (Suc n) (Members acc) (t # ts) =
     (if t = RBrace then Some (JObject (rev acc), ts)
      else if t = Comma then parse n (Member acc) ts
      else None)"

text \<open>A text is valid JSON when it is one value and nothing else.\<close>

definition parse_json :: "string \<Rightarrow> json option" where
  "parse_json text =
     (case json_tokens text of
        None \<Rightarrow> None
      | Some ts \<Rightarrow>
          (case parse (Suc (2 * length ts)) Value ts of
             Some (v, []) \<Rightarrow> Some v
           | _ \<Rightarrow> None))"

definition valid_json :: "string \<Rightarrow> bool" where
  "valid_json text = (parse_json text \<noteq> None)"

section \<open>json.loads\<close>

text \<open>
  \<open>json.loads\<close> on a text of standard JSON: the tree, with every number converted (an
  \<open>int\<close> when the literal has neither fraction nor exponent, else the \<open>float\<close> nearest to
  the decimal), and an object as a \<open>dict\<close> in which a repeated key keeps its first place
  and its last value. A text that is not JSON raises \<open>JSONDecodeError\<close>, a \<open>ValueError\<close>.
  (Python's reader also accepts the words \<open>NaN\<close>, \<open>Infinity\<close> and \<open>-Infinity\<close>, which are
  not JSON; they are not read here.)
\<close>

text \<open>The value of a string of decimal digits.\<close>

definition digits_nat :: "string \<Rightarrow> nat" where
  "digits_nat ds = foldl (\<lambda>acc c. 10 * acc + (of_char c - 48)) 0 ds"

definition int_of_literal :: "string \<Rightarrow> int" where
  "int_of_literal l =
     (case l of
        [] \<Rightarrow> 0
      | c # cs \<Rightarrow> if c = CHR ''-'' then - int (digits_nat cs) else int (digits_nat l))"

text \<open>A literal with a fraction \<open>fp\<close> and an exponent \<open>ex\<close> is the decimal
  \<open>(ip fp) * 10^(ex - length fp)\<close>; \<open>float\<close> rounds it to binary64.\<close>

definition float_of_literal :: "string \<Rightarrow> pyfloat" where
  "float_of_literal l =
     (let s = (l \<noteq> [] \<and> hd l = CHR ''-'');
          u = (if s then tl l else l);
          ip = takeWhile is_digit u;
          r = dropWhile is_digit u;
          fp = (if r \<noteq> [] \<and> hd r = CHR ''.'' then takeWhile is_digit (tl r) else []);
          r' = (if r \<noteq> [] \<and> hd r = CHR ''.'' then dropWhile is_digit (tl r) else r);
          ex = (if r' = [] then 0 else int_of_literal
                  (if tl r' \<noteq> [] \<and> hd (tl r') = CHR ''+'' then tl (tl r') else tl r'));
          c = digits_nat (ip @ fp)
      in if c = 0 then Finite s 0 (- 1074) else round_decimal s c (ex - int (length fp)))"

definition is_float_literal :: "string \<Rightarrow> bool" where
  "is_float_literal l = (\<exists>c \<in> set l. c = CHR ''.'' \<or> c = CHR ''e'' \<or> c = CHR ''E'')"

fun dict_set :: "pystr \<Rightarrow> pyval \<Rightarrow> (pystr \<times> pyval) list \<Rightarrow> (pystr \<times> pyval) list" where
  "dict_set k v [] = [(k, v)]"
| "dict_set k v ((k', v') # kvs) =
     (if k' = k then (k', v) # kvs else (k', v') # dict_set k v kvs)"

fun py_of_json :: "json \<Rightarrow> pyval" where
  "py_of_json JNull = PyNone"
| "py_of_json (JBool b) = PyBool b"
| "py_of_json (JNumber l) =
     (if is_float_literal l then PyFloat (float_of_literal l) else PyInt (int_of_literal l))"
| "py_of_json (JString s) = PyStr s"
| "py_of_json (JArray xs) = PyList (map py_of_json xs)"
| "py_of_json (JObject kvs) =
     PyDict (foldl (\<lambda>d kv. dict_set (fst kv) (py_of_json (snd kv)) d) [] kvs)"

definition loads :: "string \<Rightarrow> exn + pyval" where
  "loads text = (case parse_json text of None \<Rightarrow> Inl ValueError | Some j \<Rightarrow> Inr (py_of_json j))"

subsection \<open>The JSON of a Python value\<close>

text \<open>The tree that the text of a value is expected to hold: every number as Python
  prints it.\<close>

fun json_of :: "pyval \<Rightarrow> json" where
  "json_of PyNone = JNull"
| "json_of (PyBool b) = JBool b"
| "json_of (PyInt n) = JNumber (int_repr n)"
| "json_of (PyFloat x) = JNumber (float_str x)"
| "json_of (PyStr s) = JString s"
| "json_of (PyList xs) = JArray (map json_of xs)"
| "json_of (PyDict kvs) = JObject (map (\<lambda>kv. (fst kv, json_of (snd kv))) kvs)"

section \<open>The request builders\<close>

text \<open>
  Amazon Nova (family A):
  \<^verbatim>\<open>
  body = json.dumps(
      {
      "schemaVersion": "messages-v1",
      "messages": [{"role": "user", "content": [{"text": prompt}]}],
      "inferenceConfig": {"maxTokens": 300, "temperature": 0.3, "topP": 0.1, "topK": 20}
  })
  \<close>
  Claude in \<open>bookstore_assistant\<close> (family B):
  \<^verbatim>\<open>
  body = json.dumps({
      "anthropic_version": "bedrock-2023-05-31",
      "max_tokens": 4096, "temperature": 0.1, "top_k":250, "top_p":0.99,
      "system": "You are a helpful assistant that processes orders from a bookstore.",
      "messages": [{"role": "user", "content": [{"type": "text", "text": query}]}],
  })
  \<close>
  The cells write the inference parameters as literals. \<open>nova_request\<close> and
  \<open>claude_request\<close> are the two \<open>dict\<close> displays with the four literals as arguments, and
  \<open>nova_body\<close> and \<open>bookstore_body\<close> are the cells, with the literals they have. A float
  literal of the source is the float nearest to the decimal written.
\<close>

definition nova_request :: "pystr \<Rightarrow> pyval \<Rightarrow> pyval \<Rightarrow> pyval \<Rightarrow> pyval \<Rightarrow> pyval" where
  "nova_request prompt maxTokens temperature topP topK =
     PyDict
       [(ascii ''schemaVersion'', PyStr (ascii ''messages-v1'')),
        (ascii ''messages'',
           PyList [PyDict [(ascii ''role'', PyStr (ascii ''user'')),
                           (ascii ''content'', PyList [PyDict [(ascii ''text'', PyStr prompt)]])]]),
        (ascii ''inferenceConfig'',
           PyDict [(ascii ''maxTokens'', maxTokens),
                   (ascii ''temperature'', temperature),
                   (ascii ''topP'', topP),
                   (ascii ''topK'', topK)])]"

definition nova_body :: "pystr \<Rightarrow> string" where
  "nova_body prompt =
     dumps (nova_request prompt (PyInt 300) (PyFloat (float_of_literal ''0.3''))
              (PyFloat (float_of_literal ''0.1'')) (PyInt 20))"

definition claude_request :: "pystr \<Rightarrow> pyval \<Rightarrow> pyval \<Rightarrow> pyval \<Rightarrow> pyval \<Rightarrow> pyval" where
  "claude_request query max_tokens temperature top_k top_p =
     PyDict
       [(ascii ''anthropic_version'', PyStr (ascii ''bedrock-2023-05-31'')),
        (ascii ''max_tokens'', max_tokens),
        (ascii ''temperature'', temperature),
        (ascii ''top_k'', top_k),
        (ascii ''top_p'', top_p),
        (ascii ''system'',
           PyStr (ascii ''You are a helpful assistant that processes orders from a bookstore.'')),
        (ascii ''messages'',
           PyList [PyDict [(ascii ''role'', PyStr (ascii ''user'')),
                           (ascii ''content'',
                              PyList [PyDict [(ascii ''type'', PyStr (ascii ''text'')),
                                              (ascii ''text'', PyStr query)]])]])]"

definition bookstore_body :: "pystr \<Rightarrow> string" where
  "bookstore_body query =
     dumps (claude_request query (PyInt 4096) (PyFloat (float_of_literal ''0.1''))
              (PyInt 250) (PyFloat (float_of_literal ''0.99'')))"

text \<open>
  A Python \<open>str\<close> is a sequence of code points. \<open>scalar_values\<close> are the strings that are
  Unicode text: every code point is below \<open>0x110000\<close> and none is a surrogate
  (\<open>0xD800\<close> .. \<open>0xDFFF\<close>).
\<close>

definition scalar_values :: "pystr \<Rightarrow> bool" where
  "scalar_values s = list_all (\<lambda>c. c < 1114112 \<and> (c < 55296 \<or> 57343 < c)) s"

text \<open>
  The prompt of the summarization cell, \<open>prompt = """..."""\<close>: a backslash at the end of a
  line of the literal joins it with the next line, so the text between \<open><text>\<close> and
  \<open></text>\<close> is one line. \<open>10\<close> is the newline, \<open>8212\<close> the dash and \<open>8217\<close> the apostrophe
  of the text, which are not ASCII.
\<close>

definition sample_prompt :: pystr where
  "sample_prompt =
     [10]
     @ ascii ''Please provide a summary of the following text. Do not add any information that ''
     @ ascii ''is not mentioned in the text below.''
     @ [10, 10]
     @ ascii ''<text>''
     @ [10]
     @ ascii ''AWS took all of that feedback from customers, and today we are excited to announce ''
     @ ascii ''Amazon Bedrock, a new service that makes FMs from AI21 Labs, Anthropic, Stability ''
     @ ascii ''AI, and Amazon accessible via an API. Bedrock is the easiest way for customers ''
     @ ascii ''to build and scale generative AI-based applications using FMs, democratizing access ''
     @ ascii ''for all builders. Bedrock will offer the ability to access a range of powerful ''
     @ ascii ''FMs for text and images''
     @ [8212]
     @ ascii ''including Amazons Titan FMs, which consist of two new LLMs we''
     @ [8217]
     @ ascii ''re also announcing today''
     @ [8212]
     @ ascii ''through a scalable, reliable, and secure AWS managed service. With Bedrock''
     @ [8217]
     @ ascii ''s serverless experience, customers can easily find the right model for what they''
     @ [8217]
     @ ascii ''re trying to get done, get started quickly, privately customize FMs with their ''
     @ ascii ''own data, and easily integrate and deploy them into their applications using the ''
     @ ascii ''AWS tools and capabilities they are familiar with, without having to manage any ''
     @ ascii ''infrastructure (including integrations with Amazon SageMaker M''
     @ ascii ''L features like ''
     @ ascii ''Experiments to test different models and Pipelines to manage their FMs at scale).''
     @ [10]
     @ ascii ''</text>''
     @ [10, 10]"

section \<open>Evaluating binary64 arithmetic\<close>

text \<open>The recursion of \<open>bitlen\<close> as two rewrite rules that stop at zero, and the
  definitions that the simplifier unfolds to compute with floats.\<close>

lemma bitlen_0: "bitlen 0 = 0"
  by (simp add: bitlen.simps)

lemma bitlen_pos: "0 < n \<Longrightarrow> bitlen n = Suc (bitlen (n div 2))"
  by (subst bitlen.simps) simp

lemmas float_eval =
  bitlen_0 bitlen_pos round_binary64_def ilog2_def round_half_even_def Let_def scaled_def
  round_scaled_def float_of_int_def float_zero_def

section \<open>Properties of tag extraction\<close>

subsection \<open>The generator yields the nodes of the document in document order\<close>

lemma walk_nodes:
  fixes n :: "'c node" and cs :: "'c node list"
  shows "map snd (walk p n) = n # descendants n"
    and "map snd (walks p i cs) = concat (map (\<lambda>c. c # descendants c) cs)"
  by (induction p n and p i cs rule: walk_walks.induct) simp_all

lemma walk_sound:
  "(q, m) \<in> set (walk p n) \<Longrightarrow> \<exists>r. q = p @ r \<and> below n r = Some m"
  "(q, m) \<in> set (walks p i cs) \<Longrightarrow>
     \<exists>j r. j < length cs \<and> q = p @ (i + j) # r \<and> below (cs ! j) r = Some m"
proof (induction p n and p i cs rule: walk_walks.induct)
  case (1 p n ts cs)
  from 1(2) consider "q = p" "m = Tag n ts cs" | "(q, m) \<in> set (walks p 0 cs)"
    by auto
  then show ?case
  proof cases
    case 1
    then show ?thesis by simp
  next
    case 2
    with 1(1) obtain j r where "j < length cs" "q = p @ j # r" "below (cs ! j) r = Some m"
      by auto
    then have "q = p @ (j # r) \<and> below (Tag n ts cs) (j # r) = Some m"
      by simp
    then show ?thesis ..
  qed
next
  case (2 p k s)
  then show ?case by simp
next
  case (3 p i)
  then show ?case by simp
next
  case (4 p i c cs)
  from 4(3) consider "(q, m) \<in> set (walk (p @ [i]) c)" | "(q, m) \<in> set (walks p (Suc i) cs)"
    by auto
  then show ?case
  proof cases
    case 1
    with 4(1) obtain r where "q = (p @ [i]) @ r" "below c r = Some m"
      by blast
    then have "0 < length (c # cs) \<and> q = p @ (i + 0) # r \<and> below ((c # cs) ! 0) r = Some m"
      by simp
    then show ?thesis by blast
  next
    case 2
    with 4(2) obtain j r where
      "j < length cs" "q = p @ (Suc i + j) # r" "below (cs ! j) r = Some m"
      by blast
    then have "Suc j < length (c # cs) \<and> q = p @ (i + Suc j) # r
                 \<and> below ((c # cs) ! Suc j) r = Some m"
      by simp
    then show ?thesis by blast
  qed
qed

lemma walk_complete:
  "below n r = Some m \<Longrightarrow> (p @ r, m) \<in> set (walk p n)"
  "j < length cs \<Longrightarrow> below (cs ! j) r = Some m \<Longrightarrow> (p @ (i + j) # r, m) \<in> set (walks p i cs)"
proof (induction p n and p i cs arbitrary: r and j r rule: walk_walks.induct)
  case (1 p n ts cs)
  show ?case
  proof (cases r)
    case Nil
    with 1(2) have "m = Tag n ts cs" by simp
    with Nil show ?thesis by simp
  next
    case (Cons j r')
    with 1(2) have "j < length cs" "below (cs ! j) r' = Some m"
      by (simp_all split: if_splits)
    then have "(p @ (0 + j) # r', m) \<in> set (walks p 0 cs)"
      by (rule 1(1))
    with Cons show ?thesis by simp
  qed
next
  case (2 p k s)
  then have "r = []" "m = Str k s"
    by (cases r; simp)+
  then show ?case by simp
next
  case (3 p i)
  then show ?case by simp
next
  case (4 p i c cs)
  show ?case
  proof (cases j)
    case 0
    with 4(4) have "below c r = Some m" by simp
    then have "((p @ [i]) @ r, m) \<in> set (walk (p @ [i]) c)"
      by (rule 4(1))
    with 0 show ?thesis by simp
  next
    case (Suc j')
    with 4(3,4) have "j' < length cs" "below (cs ! j') r = Some m"
      by simp_all
    then have "(p @ (Suc i + j') # r, m) \<in> set (walks p (Suc i) cs)"
      by (rule 4(2))
    with Suc show ?thesis by simp
  qed
qed

lemma append_less: "(p @ a < p @ b) = (a < b)" for a b :: "nat list"
  by (induction p) simp_all

lemma walk_sorted:
  fixes n :: "'c node" and cs :: "'c node list"
  shows "sorted_wrt (<) (map fst (walk p n))"
    and "sorted_wrt (<) (map fst (walks p i cs))"
proof (induction p n and p i cs rule: walk_walks.induct)
  case (1 p n ts cs)
  have "p < q" if "(q, m) \<in> set (walks p 0 cs)" for q m
  proof -
    from walk_sound(2) [OF that] obtain j r where "q = p @ (0 + j) # r"
      by blast
    moreover have "p @ [] < p @ (0 + j) # r"
      unfolding append_less by simp
    ultimately show ?thesis by simp
  qed
  with 1 show ?case by auto
next
  case (2 p k s)
  show ?case by simp
next
  case (3 p i)
  show ?case by simp
next
  case (4 p i c cs)
  have "q < q'" if "(q, m) \<in> set (walk (p @ [i]) c)" "(q', m') \<in> set (walks p (Suc i) cs)"
    for q m q' m'
  proof -
    from walk_sound(1) [OF that(1)] obtain r where "q = (p @ [i]) @ r"
      by blast
    moreover from walk_sound(2) [OF that(2)] obtain j r' where "q' = p @ (Suc i + j) # r'"
      by blast
    moreover have "p @ i # r < p @ (Suc i + j) # r'"
      unfolding append_less by simp
    ultimately show ?thesis by simp
  qed
  with 4 show ?case by (auto simp: sorted_wrt_append)
qed

lemma soup_descendants_walks: "soup_descendants soup = map snd (walks [] 0 soup)"
  by (simp add: soup_descendants_def walk_nodes)

lemma node_at_walks: "(node_at soup p = Some e) = ((p, e) \<in> set (walks [] 0 soup))"
proof
  assume h: "node_at soup p = Some e"
  then obtain j r where p: "p = j # r"
    by (cases p) simp_all
  with h have "j < length soup" "below (soup ! j) r = Some e"
    by (simp_all split: if_splits)
  then have "([] @ (0 + j) # r, e) \<in> set (walks [] 0 soup)"
    by (rule walk_complete(2))
  with p show "(p, e) \<in> set (walks [] 0 soup)"
    by simp
next
  assume "(p, e) \<in> set (walks [] 0 soup)"
  from walk_sound(2) [OF this] show "node_at soup p = Some e"
    by auto
qed

text \<open>What \<open>find_all\<close> returns are the occurrences of the tag, and nothing else is.\<close>

lemma find_all_occurrences: "occurrences soup tag (find_all soup tag)"
proof -
  let ?ws = "filter (\<lambda>w. named tag (snd w)) (walks [] 0 soup)"
  have "sorted_wrt (<) (map fst ?ws)"
    using walk_sorted(2) [of "[]" 0 soup] by (simp add: sorted_wrt_map sorted_wrt_filter)
  moreover have "set (map fst ?ws) = {p. \<exists>e. node_at soup p = Some e \<and> named tag e}"
    by (auto simp: node_at_walks image_iff)
  moreover have "map (node_at soup) (map fst ?ws) = map Some (find_all soup tag)"
  proof -
    have "node_at soup (fst w) = Some (snd w)" if "w \<in> set ?ws" for w
    proof -
      from that have "(fst w, snd w) \<in> set (walks [] 0 soup)"
        by simp
      then show ?thesis
        by (simp only: node_at_walks)
    qed
    then have "map (node_at soup) (map fst ?ws) = map Some (map snd ?ws)"
      by simp
    also have "map snd ?ws = find_all soup tag"
      by (simp add: find_all_def soup_descendants_walks filter_map comp_def)
    finally show ?thesis .
  qed
  ultimately show ?thesis
    unfolding occurrences_def by blast
qed

lemma occurrences_unique:
  assumes "occurrences soup tag es" and "occurrences soup tag es'"
  shows "es = es'"
proof -
  from assms(1) obtain ps where ps: "sorted_wrt (<) ps"
    "set ps = {p. \<exists>e. node_at soup p = Some e \<and> named tag e}"
    "map (node_at soup) ps = map Some es"
    unfolding occurrences_def by blast
  from assms(2) obtain ps' where ps': "sorted_wrt (<) ps'"
    "set ps' = {p. \<exists>e. node_at soup p = Some e \<and> named tag e}"
    "map (node_at soup) ps' = map Some es'"
    unfolding occurrences_def by blast
  from ps(1) ps'(1) ps(2) ps'(2) have "ps = ps'"
    by (simp add: strict_sorted_equal)
  with ps(3) ps'(3) have "map Some es = map Some es'"
    by simp
  then show ?thesis
    by (simp add: inj_map_eq_map)
qed

lemma occurrences_find_all: "occurrences soup tag es \<Longrightarrow> find_all soup tag = es"
  by (rule occurrences_unique [OF find_all_occurrences])

lemma find_all_empty:
  "(find_all soup tag = []) = (\<not> (\<exists>p e. node_at soup p = Some e \<and> named tag e))"
proof
  assume "find_all soup tag = []"
  with find_all_occurrences [of soup tag] have "occurrences soup tag []"
    by simp
  then show "\<not> (\<exists>p e. node_at soup p = Some e \<and> named tag e)"
    unfolding occurrences_def by auto
next
  assume "\<not> (\<exists>p e. node_at soup p = Some e \<and> named tag e)"
  then have "{p. \<exists>e. node_at soup p = Some e \<and> named tag e} = {}"
    by blast
  then have "sorted_wrt (<) ([] :: nat list list)
               \<and> set [] = {p. \<exists>e. node_at soup p = Some e \<and> named tag e}
               \<and> map (node_at soup) [] = map Some ([] :: 'a node list)"
    by (simp only: sorted_wrt.simps list.set list.map simp_thms)
  then have "occurrences soup tag []"
    unfolding occurrences_def by (rule exI)
  then show "find_all soup tag = []"
    by (rule occurrences_find_all)
qed

lemmas parser_eval =
  html_parser_def tag_token_def tag_name_def tag_opens_def flush_def ascii_letter_def
  lower_char_def char_of_def ascii_space_def name_end_def string_containers_def interesting_def
  void_element_def preserves_whitespace_def end_data_def

lemmas tags_eval =
  extract_by_tag_def find_all_def soup_descendants_def start_tags_in_text_def

subsection \<open>The last occurrence\<close>

text \<open>
  C1 as stated, with an occurrence read as a start tag in the text, does not hold: the
  text below holds the start tag \<open><Book>\<close> twice, and with \<open>html.parser\<close> the helper returns
  \<open>None\<close> for the tag \<open>Book\<close>, because the parser puts the names of elements in lower case
  and \<open>find_all\<close> compares names as they are.
\<close>

theorem capital_tag_default_counterexample:
  "start_tags_in_text ''Book'' ''<Book>Emma</Book><Book>Ulysses</Book>'' = 2
   \<and> extract_by_tag html_parser ''<Book>Emma</Book><Book>Ulysses</Book>'' ''Book'' False
       = Inr Absent"
  by (simp add: tags_eval parser_eval)

text \<open>
  C1, amended. For every text that \<open>BeautifulSoup\<close> accepts and every tag name such that the
  document built from the text holds two or more elements of that name, the default
  (single result) mode returns the text content (\<open>get_text()\<close>) of the last of these
  elements in document order, for every parser.
\<close>

theorem default_mode_returns_last_occurrence:
  assumes "BeautifulSoup response = Inr soup"
    and "occurrences soup tag es"
    and "2 \<le> length es"
  shows "extract_by_tag BeautifulSoup response tag False = Inr (Single (get_text (last es)))"
proof -
  from assms(2) have f: "find_all soup tag = es"
    by (rule occurrences_find_all)
  from assms(3) have "es \<noteq> []"
    by auto
  with assms(1) f show ?thesis
    by (simp add: extract_by_tag_def last_map)
qed

text \<open>Three occurrences, the last one inside the second: the result is the text of the
  innermost element, neither of the first nor of the last top-level one.\<close>

theorem default_mode_returns_last_occurrence_witness:
  "html_parser ''<book>Emma</book> and <book>Ulysses <book>Dracula</book></book>''
     = Inr [Tag ''book'' [NavigableString, CData] [Str NavigableString ''Emma''],
            Str NavigableString '' and '',
            Tag ''book'' [NavigableString, CData]
              [Str NavigableString ''Ulysses '',
               Tag ''book'' [NavigableString, CData] [Str NavigableString ''Dracula'']]]
   \<and> occurrences
        [Tag ''book'' [NavigableString, CData] [Str NavigableString ''Emma''],
         Str NavigableString '' and '',
         Tag ''book'' [NavigableString, CData]
           [Str NavigableString ''Ulysses '',
            Tag ''book'' [NavigableString, CData] [Str NavigableString ''Dracula'']]]
        ''book''
        [Tag ''book'' [NavigableString, CData] [Str NavigableString ''Emma''],
         Tag ''book'' [NavigableString, CData]
           [Str NavigableString ''Ulysses '',
            Tag ''book'' [NavigableString, CData] [Str NavigableString ''Dracula'']],
         Tag ''book'' [NavigableString, CData] [Str NavigableString ''Dracula'']]
   \<and> extract_by_tag html_parser
        ''<book>Emma</book> and <book>Ulysses <book>Dracula</book></book>'' ''book'' False
       = Inr (Single ''Dracula'')"
proof -
  let ?text = "''<book>Emma</book> and <book>Ulysses <book>Dracula</book></book>''"
  let ?inner = "Tag ''book'' [NavigableString, CData] [Str NavigableString ''Dracula'']"
  let ?outer = "Tag ''book'' [NavigableString, CData] [Str NavigableString ''Ulysses '', ?inner]"
  let ?first = "Tag ''book'' [NavigableString, CData] [Str NavigableString ''Emma'']"
  let ?soup = "[?first, Str NavigableString '' and '', ?outer]"
  have p: "html_parser ?text = Inr ?soup"
    by (simp add: parser_eval)
  have "find_all ?soup ''book'' = [?first, ?outer, ?inner]"
    by (simp add: find_all_def soup_descendants_def)
  with find_all_occurrences [of ?soup "''book''"]
  have o: "occurrences ?soup ''book'' [?first, ?outer, ?inner]"
    by simp
  have "extract_by_tag html_parser ?text ''book'' False = Inr (Single (get_text (last [?first, ?outer, ?inner])))"
    by (rule default_mode_returns_last_occurrence
              [of html_parser ?text ?soup "''book''" "[?first, ?outer, ?inner]", OF p o])
       simp
  then have "extract_by_tag html_parser ?text ''book'' False = Inr (Single ''Dracula'')"
    by simp
  with p o show ?thesis
    by blast
qed

subsection \<open>No occurrence\<close>

text \<open>
  C2 as stated does not hold, in two ways. With no occurrence of the tag the helper
  returns \<open>None\<close> also when \<open>extract_all\<close> is true, and no empty list: the guard
  \<open>if not results: return\<close> stands before the test of \<open>extract_all\<close>. And an occurrence in
  the text is not what the helper looks for: with the \<open>lxml\<close> back end the text \<open>hello\<close>,
  which holds no tag at all, becomes a document with a \<open>body\<close> element, and the helper
  returns \<open>hello\<close> for the tag \<open>body\<close>.
\<close>

theorem no_occurrence_counterexample:
  "start_tags_in_text ''book'' ''no books here'' = 0
   \<and> extract_by_tag html_parser ''no books here'' ''book'' True = Inr Absent
   \<and> extract_by_tag html_parser ''no books here'' ''book'' True \<noteq> Inr (Many [])
   \<and> start_tags_in_text ''body'' ''hello'' = 0
   \<and> extract_by_tag lxml_plain_text ''hello'' ''body'' False = Inr (Single ''hello'')"
  by (simp add: tags_eval parser_eval lxml_plain_text_def)

text \<open>
  C2, amended. For every text that \<open>BeautifulSoup\<close> accepts and every tag name such that the
  document built from the text holds no element of that name, at any depth, the helper
  returns an absent value (not an error) in default mode and also with
  \<open>extract_all=True\<close>.
\<close>

theorem no_element_gives_absent:
  assumes "BeautifulSoup response = Inr soup"
    and "\<not> (\<exists>p e. node_at soup p = Some e \<and> named tag e)"
  shows "extract_by_tag BeautifulSoup response tag False = Inr Absent
         \<and> extract_by_tag BeautifulSoup response tag True = Inr Absent"
proof -
  from assms(2) have "find_all soup tag = []"
    by (simp add: find_all_empty)
  with assms(1) show ?thesis
    by (simp add: extract_by_tag_def)
qed

theorem no_element_gives_absent_witness:
  "html_parser ''<title>Emma</title> by <author>Jane Austen</author>''
     = Inr [Tag ''title'' [NavigableString, CData] [Str NavigableString ''Emma''],
            Str NavigableString '' by '',
            Tag ''author'' [NavigableString, CData] [Str NavigableString ''Jane Austen'']]
   \<and> \<not> (\<exists>p e. node_at
                  [Tag ''title'' [NavigableString, CData] [Str NavigableString ''Emma''],
                   Str NavigableString '' by '',
                   Tag ''author'' [NavigableString, CData] [Str NavigableString ''Jane Austen'']]
                  p = Some e
               \<and> named ''book'' e)
   \<and> extract_by_tag html_parser ''<title>Emma</title> by <author>Jane Austen</author>''
        ''book'' False = Inr Absent
   \<and> extract_by_tag html_parser ''<title>Emma</title> by <author>Jane Austen</author>''
        ''book'' True = Inr Absent"
proof -
  let ?text = "''<title>Emma</title> by <author>Jane Austen</author>''"
  let ?soup = "[Tag ''title'' [NavigableString, CData] [Str NavigableString ''Emma''],
                Str NavigableString '' by '',
                Tag ''author'' [NavigableString, CData] [Str NavigableString ''Jane Austen'']]"
  have p: "html_parser ?text = Inr ?soup"
    by (simp add: parser_eval)
  have n: "\<not> (\<exists>p e. node_at ?soup p = Some e \<and> named ''book'' e)"
    unfolding node_at_walks by auto
  from no_element_gives_absent [of html_parser ?text ?soup "''book''", OF p n] p n
  show ?thesis
    by blast
qed

subsection \<open>All occurrences\<close>

text \<open>
  C3 as stated, with an occurrence read as a start tag in the text, does not hold: the
  text below holds one start tag \<open><Book>\<close>, and with \<open>html.parser\<close> the helper called with
  \<open>extract_all=True\<close> returns \<open>None\<close> for the tag \<open>Book\<close>, not the list of the one content.
\<close>

theorem capital_tag_extract_all_counterexample:
  "start_tags_in_text ''Book'' ''Read <Book>Emma</Book> first'' = 1
   \<and> extract_by_tag html_parser ''Read <Book>Emma</Book> first'' ''Book'' True = Inr Absent"
  by (simp add: tags_eval parser_eval)

text \<open>
  C3, amended. For every text that \<open>BeautifulSoup\<close> accepts and every tag name such that the
  document built from the text holds one or more elements of that name, the helper
  called with \<open>extract_all=True\<close> returns the list of the text contents (\<open>get_text()\<close>) of
  all these elements, each once, in document order, for every parser.
\<close>

theorem extract_all_returns_every_occurrence:
  assumes "BeautifulSoup response = Inr soup"
    and "occurrences soup tag es"
    and "1 \<le> length es"
  shows "extract_by_tag BeautifulSoup response tag True = Inr (Many (map get_text es))"
proof -
  from assms(2) have f: "find_all soup tag = es"
    by (rule occurrences_find_all)
  from assms(3) have "es \<noteq> []"
    by auto
  with assms(1) f show ?thesis
    by (simp add: extract_by_tag_def)
qed

text \<open>Three occurrences below another element, one of them inside another; the text of
  the \<open>script\<close> element is no text of the element around it.\<close>

theorem extract_all_returns_every_occurrence_witness:
  "html_parser
     ''<list><book>Emma<script>x</script></book> <book>Ulysses <book>Dracula</book></book></list>''
     = Inr [Tag ''list'' [NavigableString, CData]
              [Tag ''book'' [NavigableString, CData]
                 [Str NavigableString ''Emma'', Tag ''script'' [Script] [Str Script ''x'']],
               Str NavigableString '' '',
               Tag ''book'' [NavigableString, CData]
                 [Str NavigableString ''Ulysses '',
                  Tag ''book'' [NavigableString, CData] [Str NavigableString ''Dracula'']]]]
   \<and> occurrences
        [Tag ''list'' [NavigableString, CData]
           [Tag ''book'' [NavigableString, CData]
              [Str NavigableString ''Emma'', Tag ''script'' [Script] [Str Script ''x'']],
            Str NavigableString '' '',
            Tag ''book'' [NavigableString, CData]
              [Str NavigableString ''Ulysses '',
               Tag ''book'' [NavigableString, CData] [Str NavigableString ''Dracula'']]]]
        ''book''
        [Tag ''book'' [NavigableString, CData]
           [Str NavigableString ''Emma'', Tag ''script'' [Script] [Str Script ''x'']],
         Tag ''book'' [NavigableString, CData]
           [Str NavigableString ''Ulysses '',
            Tag ''book'' [NavigableString, CData] [Str NavigableString ''Dracula'']],
         Tag ''book'' [NavigableString, CData] [Str NavigableString ''Dracula'']]
   \<and> extract_by_tag html_parser
        ''<list><book>Emma<script>x</script></book> <book>Ulysses <book>Dracula</book></book></list>''
        ''book'' True
       = Inr (Many [''Emma'', ''Ulysses Dracula'', ''Dracula''])"
proof -
  let ?text =
    "''<list><book>Emma<script>x</script></book> <book>Ulysses <book>Dracula</book></book></list>''"
  let ?inner = "Tag ''book'' [NavigableString, CData] [Str NavigableString ''Dracula'']"
  let ?outer = "Tag ''book'' [NavigableString, CData] [Str NavigableString ''Ulysses '', ?inner]"
  let ?first = "Tag ''book'' [NavigableString, CData]
                  [Str NavigableString ''Emma'', Tag ''script'' [Script] [Str Script ''x'']]"
  let ?soup = "[Tag ''list'' [NavigableString, CData] [?first, Str NavigableString '' '', ?outer]]"
  have p: "html_parser ?text = Inr ?soup"
    by (simp add: parser_eval)
  have "find_all ?soup ''book'' = [?first, ?outer, ?inner]"
    by (simp add: find_all_def soup_descendants_def)
  with find_all_occurrences [of ?soup "''book''"]
  have o: "occurrences ?soup ''book'' [?first, ?outer, ?inner]"
    by simp
  have "extract_by_tag html_parser ?text ''book'' True
          = Inr (Many (map get_text [?first, ?outer, ?inner]))"
    by (rule extract_all_returns_every_occurrence
              [of html_parser ?text ?soup "''book''" "[?first, ?outer, ?inner]", OF p o])
       simp
  then have "extract_by_tag html_parser ?text ''book'' True
               = Inr (Many [''Emma'', ''Ulysses Dracula'', ''Dracula''])"
    by simp
  with p o show ?thesis
    by blast
qed

subsection \<open>The two modes\<close>

text \<open>
  C9 as stated, with an occurrence read as a start tag in the text, does not hold: the
  text below holds the start tag \<open><Title>\<close> twice, and with \<open>html.parser\<close> the helper called
  with \<open>extract_all=True\<close> returns \<open>None\<close> for the tag \<open>Title\<close>, which is no list and has no
  last element.
\<close>

theorem capital_tag_no_list_counterexample:
  "start_tags_in_text ''Title'' ''<Title>Emma</Title><Title>Ulysses</Title>'' = 2
   \<and> extract_by_tag html_parser ''<Title>Emma</Title><Title>Ulysses</Title>'' ''Title'' True
       = Inr Absent
   \<and> \<not> (\<exists>texts. extract_by_tag html_parser ''<Title>Emma</Title><Title>Ulysses</Title>''
                    ''Title'' True = Inr (Many texts))"
  by (simp add: tags_eval parser_eval)

text \<open>
  C9, amended. For every text that \<open>BeautifulSoup\<close> accepts and every tag name such that the
  document built from the text holds at least one element of that name, at any depth,
  the helper called with \<open>extract_all=True\<close> returns a list that is not empty, and the
  result of the default mode on the same inputs is the last element of that list.
\<close>

theorem default_is_last_of_all:
  assumes "BeautifulSoup response = Inr soup"
    and "node_at soup p = Some e"
    and "named tag e"
  shows "\<exists>texts. texts \<noteq> []
           \<and> extract_by_tag BeautifulSoup response tag True = Inr (Many texts)
           \<and> extract_by_tag BeautifulSoup response tag False = Inr (Single (last texts))"
proof -
  from assms(2,3) have "find_all soup tag \<noteq> []"
    unfolding find_all_empty by blast
  with assms(1) show ?thesis
    by (simp add: extract_by_tag_def)
qed

text \<open>Two occurrences with different contents, below a paragraph.\<close>

theorem default_is_last_of_all_witness:
  "html_parser ''<p>Try <book>Emma</book>, then <book>Persuasion</book>.</p>''
     = Inr [Tag ''p'' [NavigableString, CData]
              [Str NavigableString ''Try '',
               Tag ''book'' [NavigableString, CData] [Str NavigableString ''Emma''],
               Str NavigableString '', then '',
               Tag ''book'' [NavigableString, CData] [Str NavigableString ''Persuasion''],
               Str NavigableString ''.'']]
   \<and> extract_by_tag html_parser ''<p>Try <book>Emma</book>, then <book>Persuasion</book>.</p>''
        ''book'' True = Inr (Many [''Emma'', ''Persuasion''])
   \<and> extract_by_tag html_parser ''<p>Try <book>Emma</book>, then <book>Persuasion</book>.</p>''
        ''book'' False = Inr (Single ''Persuasion'')"
proof -
  let ?text = "''<p>Try <book>Emma</book>, then <book>Persuasion</book>.</p>''"
  let ?emma = "Tag ''book'' [NavigableString, CData] [Str NavigableString ''Emma'']"
  let ?soup = "[Tag ''p'' [NavigableString, CData]
                  [Str NavigableString ''Try '', ?emma, Str NavigableString '', then '',
                   Tag ''book'' [NavigableString, CData] [Str NavigableString ''Persuasion''],
                   Str NavigableString ''.'']]"
  have p: "html_parser ?text = Inr ?soup"
    by (simp add: parser_eval)
  have n: "node_at ?soup [0, 1] = Some ?emma"
    by simp
  have m: "named ''book'' ?emma"
    by simp
  have a: "extract_by_tag html_parser ?text ''book'' True = Inr (Many [''Emma'', ''Persuasion''])"
    by (simp add: tags_eval p)
  from default_is_last_of_all [of html_parser ?text ?soup "[0, 1]" ?emma "''book''", OF p n m]
  obtain texts where
    "extract_by_tag html_parser ?text ''book'' True = Inr (Many texts)"
    "extract_by_tag html_parser ?text ''book'' False = Inr (Single (last texts))"
    by blast
  with a have "extract_by_tag html_parser ?text ''book'' False = Inr (Single ''Persuasion'')"
    by simp
  with p a show ?thesis
    by blast
qed

section \<open>Properties of the response parsers\<close>

lemma member_at_getitem: "member_at v s = Some v' \<Longrightarrow> getitem v s = Inr v'"
  by (cases v; cases s) (auto split: if_splits)

lemma follow_get_path: "follow v p = Some x \<Longrightarrow> get_path v p = Inr x"
proof (induction p arbitrary: v)
  case Nil
  then show ?case by simp
next
  case (Cons s p)
  then show ?case
    by (auto split: option.splits dest: member_at_getitem)
qed

lemma getitem_cases:
  "getitem v s = Inr v' \<Longrightarrow> member_at v s = Some v' \<or> (\<exists>t c. v = PyStr t \<and> v' = PyStr [c])"
  by (cases v; cases s) (auto split: if_splits option.splits)

lemma getitem_error:
  "getitem v s = Inl e \<Longrightarrow> is_LookupError e \<or> e = TypeError"
  by (cases v; cases s) (auto split: if_splits option.splits)

lemma get_path_str:
  "p \<noteq> [] \<Longrightarrow> last p = Key k \<Longrightarrow> \<exists>e. get_path (PyStr t) p = Inl e \<and> (e = IndexError \<or> e = TypeError)"
proof (induction p arbitrary: t)
  case Nil
  then show ?case by simp
next
  case (Cons s p)
  show ?case
  proof (cases "p = []")
    case True
    with Cons.prems show ?thesis by simp
  next
    case False
    with Cons.prems have l: "last p = Key k" by simp
    show ?thesis
    proof (cases s)
      case (Key k')
      then show ?thesis by simp
    next
      case (Index i)
      with Cons.IH [OF False l] show ?thesis by simp
    qed
  qed
qed

lemma get_path_missing:
  "follow v p = None \<Longrightarrow> p \<noteq> [] \<Longrightarrow> last p = Key k
   \<Longrightarrow> \<exists>e. get_path v p = Inl e \<and> (is_LookupError e \<or> e = TypeError)"
proof (induction p arbitrary: v)
  case Nil
  then show ?case by simp
next
  case (Cons s p)
  show ?case
  proof (cases "getitem v s")
    case (Inl e)
    with getitem_error [OF Inl] show ?thesis by simp
  next
    case (Inr v')
    from getitem_cases [OF Inr] show ?thesis
    proof
      assume m: "member_at v s = Some v'"
      with Cons.prems have f: "follow v' p = None" by simp
      have "p \<noteq> []" using f by (cases p) auto
      with Cons.prems have "last p = Key k" by simp
      from Cons.IH [OF f \<open>p \<noteq> []\<close> this] Inr show ?thesis by simp
    next
      assume "\<exists>t c. v = PyStr t \<and> v' = PyStr [c]"
      then obtain t c where v: "v = PyStr t" "v' = PyStr [c]" by blast
      with Inr obtain i where "s = Index i" by (cases s) auto
      with Cons.prems have "p \<noteq> []" by auto
      with Cons.prems have "last p = Key k" by simp
      from get_path_str [OF \<open>p \<noteq> []\<close> this, of "[c]"] Inr v show ?thesis by auto
    qed
  qed
qed

text \<open>
  C8 as stated: a body that lacks the key path makes the parser fail with a lookup (key)
  error. That is so when a key or the first element is missing where the schema's object
  or array stands; it is not so when a value on the path has another type. Here
  \<open>content\<close> is a plain string instead of a list of blocks: \<open>content[0]\<close> is the string
  \<open>"H"\<close>, and \<open>"H"["text"]\<close> raises \<open>TypeError\<close>, which is no \<open>LookupError\<close>.
\<close>

theorem response_parser_type_error_counterexample:
  "follow (PyDict [(ascii ''output'', PyDict [(ascii ''message'',
              PyDict [(ascii ''content'', PyStr (ascii ''Hi''))])])]) nova_path = None
   \<and> \<not> (\<exists>e. nova_text (PyDict [(ascii ''output'', PyDict [(ascii ''message'',
              PyDict [(ascii ''content'', PyStr (ascii ''Hi''))])])]) = Inl e
            \<and> is_LookupError e)"
  by (simp add: nova_path_def nova_text_def ascii_def)

text \<open>
  C8, amended. For every deserialized body that lacks the family's key path
  (\<open>output.message.content[0].text\<close> for Nova, \<open>content[0].text\<close> for Claude) the parser
  fails with an exception and returns no default: a \<open>KeyError\<close> or \<open>IndexError\<close> (the
  lookup errors) or a \<open>TypeError\<close>. For every body that has the key path the parser
  returns the value found there.
\<close>

theorem response_parser_missing_or_present:
  "(follow response_body nova_path = None \<longrightarrow>
      (\<exists>e. nova_text response_body = Inl e \<and> (is_LookupError e \<or> e = TypeError)))
   \<and> (\<forall>v. follow response_body nova_path = Some v \<longrightarrow> nova_text response_body = Inr v)
   \<and> (follow response_body claude_path = None \<longrightarrow>
      (\<exists>e. claude_text response_body = Inl e \<and> (is_LookupError e \<or> e = TypeError)))
   \<and> (\<forall>v. follow response_body claude_path = Some v \<longrightarrow> claude_text response_body = Inr v)"
proof -
  have n: "nova_path \<noteq> []" "last nova_path = Key (ascii ''text'')"
    by (simp_all add: nova_path_def)
  have c: "claude_path \<noteq> []" "last claude_path = Key (ascii ''text'')"
    by (simp_all add: claude_path_def)
  show ?thesis
    unfolding nova_text_def claude_text_def
    using get_path_missing [OF _ n] get_path_missing [OF _ c] follow_get_path
    by blast
qed

theorem response_parser_missing_or_present_witness:
  "follow (PyDict [(ascii ''output'', PyDict [(ascii ''message'', PyDict [(ascii ''content'',
       PyList [PyDict [(ascii ''text'', PyStr (ascii ''Bedrock is a new service.''))]])])])])
     nova_path = Some (PyStr (ascii ''Bedrock is a new service.''))
   \<and> nova_text (PyDict [(ascii ''output'', PyDict [(ascii ''message'', PyDict [(ascii ''content'',
       PyList [PyDict [(ascii ''text'', PyStr (ascii ''Bedrock is a new service.''))]])])])])
     = Inr (PyStr (ascii ''Bedrock is a new service.''))
   \<and> follow (PyDict [(ascii ''content'', PyList [])]) claude_path = None
   \<and> claude_text (PyDict [(ascii ''content'', PyList [])]) = Inl IndexError
   \<and> follow (PyDict [(ascii ''content'', PyList [PyDict [(ascii ''type'', PyStr (ascii ''text'')),
       (ascii ''text'', PyStr (ascii ''Treasure Island''))]])]) claude_path
     = Some (PyStr (ascii ''Treasure Island''))
   \<and> claude_text (PyDict [(ascii ''content'', PyList [PyDict [(ascii ''type'', PyStr (ascii ''text'')),
       (ascii ''text'', PyStr (ascii ''Treasure Island''))]])])
     = Inr (PyStr (ascii ''Treasure Island''))
   \<and> follow (PyDict [(ascii ''content'', PyList [PyDict [(ascii ''type'', PyStr (ascii ''text'')),
       (ascii ''text'', PyStr (ascii ''Treasure Island''))]])]) nova_path = None
   \<and> nova_text (PyDict [(ascii ''content'', PyList [PyDict [(ascii ''type'', PyStr (ascii ''text'')),
       (ascii ''text'', PyStr (ascii ''Treasure Island''))]])])
     = Inl (KeyError (PyStr (ascii ''output'')))"
proof -
  let ?nova = "PyDict [(ascii ''output'', PyDict [(ascii ''message'', PyDict [(ascii ''content'',
       PyList [PyDict [(ascii ''text'', PyStr (ascii ''Bedrock is a new service.''))]])])])]"
  let ?claude = "PyDict [(ascii ''content'', PyList [PyDict [(ascii ''type'', PyStr (ascii ''text'')),
       (ascii ''text'', PyStr (ascii ''Treasure Island''))]])]"
  let ?empty = "PyDict [(ascii ''content'', PyList [])]"
  have f1: "follow ?nova nova_path = Some (PyStr (ascii ''Bedrock is a new service.''))"
    by (simp add: nova_path_def ascii_def)
  have f2: "follow ?empty claude_path = None"
    by (simp add: claude_path_def ascii_def)
  have f3: "follow ?claude claude_path = Some (PyStr (ascii ''Treasure Island''))"
    by (simp add: claude_path_def ascii_def)
  have f4: "follow ?claude nova_path = None"
    by (simp add: nova_path_def ascii_def)
  from response_parser_missing_or_present [of ?nova] f1
  have r1: "nova_text ?nova = Inr (PyStr (ascii ''Bedrock is a new service.''))"
    by blast
  from response_parser_missing_or_present [of ?claude] f3
  have r3: "claude_text ?claude = Inr (PyStr (ascii ''Treasure Island''))"
    by blast
  have r2: "claude_text ?empty = Inl IndexError"
    by (simp add: claude_text_def claude_path_def ascii_def)
  have r4: "nova_text ?claude = Inl (KeyError (PyStr (ascii ''output'')))"
    by (simp add: nova_text_def nova_path_def ascii_def)
  from f1 f2 f3 f4 r1 r2 r3 r4 show ?thesis
    by blast
qed

section \<open>Properties of the error branch\<close>

text \<open>
  C7. When the invocation client raises a \<open>ClientError\<close> whose code is
  \<open>AccessDeniedException\<close>, the cell catches it, prints one diagnostic (the service's
  message and the two remediation links, between the escape codes of a red background) and
  raises nothing. Every other exception of the client, a \<open>ClientError\<close> with another code
  in particular, leaves the cell as it was raised.
\<close>

theorem access_denied_caught_others_raised:
  "(invoke_model (nova_args request_body)
        = Inl (ClientError (ascii ''AccessDeniedException'') message) \<longrightarrow>
      nova_cell invoke_model request_body = Inr [PyStr (access_denied_message message)]
      \<and> (\<exists>a b c d. access_denied_message message
            = a @ message @ b
              @ ascii ''https://docs.aws.amazon.com/IAM/latest/UserGuide/troubleshoot_access-denied.html''
              @ c
              @ ascii ''https://docs.aws.amazon.com/bedrock/latest/userguide/security-iam.html''
              @ d))
   \<and> (\<forall>code msg. invoke_model (nova_args request_body) = Inl (ClientError code msg)
          \<and> code \<noteq> ascii ''AccessDeniedException'' \<longrightarrow>
        nova_cell invoke_model request_body = Inl (ClientError code msg))
   \<and> (\<forall>error. invoke_model (nova_args request_body) = Inl error
          \<and> (\<forall>code msg. error \<noteq> ClientError code msg) \<longrightarrow>
        nova_cell invoke_model request_body = Inl error)"
proof (intro conjI impI allI)
  assume "invoke_model (nova_args request_body)
            = Inl (ClientError (ascii ''AccessDeniedException'') message)"
  then show "nova_cell invoke_model request_body = Inr [PyStr (access_denied_message message)]"
    by (simp add: nova_cell_def nova_try_def)
next
  show "\<exists>a b c d. access_denied_message message
          = a @ message @ b
            @ ascii ''https://docs.aws.amazon.com/IAM/latest/UserGuide/troubleshoot_access-denied.html''
            @ c
            @ ascii ''https://docs.aws.amazon.com/bedrock/latest/userguide/security-iam.html''
            @ d"
    unfolding access_denied_message_def
    by (intro exI [of _ "[27] @ ascii ''[41m''"]
          exI [of _ "replicate 16 32 @ [10]
             @ ascii ''To troubeshoot this issue please refer to the following resources.''
             @ replicate 17 32 @ [10]"]
          exI [of _ "replicate 17 32 @ [10]"]
          exI [of _ "[27] @ ascii ''[0m'' @ [10]"]) simp
next
  fix code msg
  assume "invoke_model (nova_args request_body) = Inl (ClientError code msg)
          \<and> code \<noteq> ascii ''AccessDeniedException''"
  then show "nova_cell invoke_model request_body = Inl (ClientError code msg)"
    by (simp add: nova_cell_def nova_try_def)
next
  fix error
  assume "invoke_model (nova_args request_body) = Inl error
          \<and> (\<forall>code msg. error \<noteq> ClientError code msg)"
  then show "nova_cell invoke_model request_body = Inl error"
    by (cases error) (simp_all add: nova_cell_def nova_try_def)
qed

theorem access_denied_caught_others_raised_witness:
  "nova_cell (\<lambda>args. Inl (ClientError (ascii ''AccessDeniedException'')
        (ascii ''You are not authorized to invoke this model.''))) ''{}''
     = Inr [PyStr (access_denied_message (ascii ''You are not authorized to invoke this model.''))]
   \<and> nova_cell (\<lambda>args. Inl (ClientError (ascii ''ThrottlingException'')
        (ascii ''Too many requests.''))) ''{}''
     = Inl (ClientError (ascii ''ThrottlingException'') (ascii ''Too many requests.''))
   \<and> nova_cell (\<lambda>args. Inl (OtherException (ascii ''EndpointConnectionError''))) ''{}''
     = Inl (OtherException (ascii ''EndpointConnectionError''))"
proof -
  have neq: "ascii ''ThrottlingException'' \<noteq> ascii ''AccessDeniedException''"
    by (simp add: ascii_def)
  from access_denied_caught_others_raised
         [of "\<lambda>args. Inl (ClientError (ascii ''AccessDeniedException'')
                (ascii ''You are not authorized to invoke this model.''))" "''{}''"
             "ascii ''You are not authorized to invoke this model.''"]
  have a: "nova_cell (\<lambda>args. Inl (ClientError (ascii ''AccessDeniedException'')
        (ascii ''You are not authorized to invoke this model.''))) ''{}''
     = Inr [PyStr (access_denied_message (ascii ''You are not authorized to invoke this model.''))]"
    by simp
  from access_denied_caught_others_raised
         [of "\<lambda>args. Inl (ClientError (ascii ''ThrottlingException'')
                (ascii ''Too many requests.''))" "''{}''"] neq
  have b: "nova_cell (\<lambda>args. Inl (ClientError (ascii ''ThrottlingException'')
        (ascii ''Too many requests.''))) ''{}''
     = Inl (ClientError (ascii ''ThrottlingException'') (ascii ''Too many requests.''))"
    by simp
  from access_denied_caught_others_raised
         [of "\<lambda>args. Inl (OtherException (ascii ''EndpointConnectionError''))" "''{}''"]
  have c: "nova_cell (\<lambda>args. Inl (OtherException (ascii ''EndpointConnectionError''))) ''{}''
     = Inl (OtherException (ascii ''EndpointConnectionError''))"
    by simp
  from a b c show ?thesis
    by blast
qed

section \<open>Properties of the sales analysis\<close>

lemmas sales_eval =
  float_eval amount_def read_row_def item_def sales_row_def sales_analysis_def sales_start_def
  positive_row_def digit_value_def int_of_digits_def float_of_digits_def sales_csv_def

text \<open>
  The loop compares the running total \<open>revenue\<close> with \<open>max_revenue\<close>. While every row
  raises the total, \<open>max_revenue\<close> follows it and the date and product are those of the row
  just read.
\<close>

lemma sales_loop_last:
  assumes "raises_total py_float py_int (revenue st) (rows @ [row])"
    and "max_revenue st = revenue st"
  shows "\<exists>st' date product price units.
           sales_loop py_float py_int st (rows @ [row]) = Inr st'
           \<and> read_row py_float py_int row = Inr (date, product, price, units)
           \<and> max_revenue_date st' = date
           \<and> max_revenue_product st' = product
           \<and> max_revenue st' = revenue st'"
  using assms
proof (induction rows arbitrary: st)
  case Nil
  then show ?case
    by (auto simp: sales_row_def Let_def split: sum.splits prod.splits)
next
  case (Cons r rows)
  from Cons.prems(1) obtain q where q: "read_row py_float py_int r = Inr q"
    by (cases "read_row py_float py_int r") auto
  obtain date product price units where "q = (date, product, price, units)"
    by (cases q) auto
  with q have r: "read_row py_float py_int r = Inr (date, product, price, units)"
    by simp
  with Cons.prems(1) obtain a where a: "amount price units = Inr a"
    by (cases "amount price units") auto
  from Cons.prems(1) r a have g: "float_gt (float_add (revenue st) a) (revenue st)"
    and rest: "raises_total py_float py_int (float_add (revenue st) a) (rows @ [row])"
    by simp_all
  define st1 where "st1 = st\<lparr>revenue := float_add (revenue st) a,
       product_revenue := dict_add product a (product_revenue st),
       monthly_revenue := dict_add (take 7 date) a (monthly_revenue st),
       max_revenue := float_add (revenue st) a, max_revenue_date := date,
       max_revenue_product := product\<rparr>"
  from r a g Cons.prems(2) have step: "sales_row py_float py_int st r = Inr st1"
    by (simp add: sales_row_def Let_def st1_def)
  have "revenue st1 = float_add (revenue st) a" "max_revenue st1 = revenue st1"
    by (simp_all add: st1_def)
  with rest Cons.IH [of st1] step show ?case
    by simp
qed

text \<open>
  C10 as stated: whenever every data row has a positive \<open>price * units_sold\<close>, the date
  and product after the loop are those of the last data row. In binary64 a positive amount
  need not raise the total: \<open>1e20 + 1.0\<close> rounds to \<open>1e20\<close>. With the two data rows
  below both amounts are positive, the second row leaves \<open>revenue\<close> at \<open>1e20\<close>, the test
  \<open>revenue > max_revenue\<close> fails, and the date and product stay those of the first row.
\<close>

theorem last_row_absorbed_counterexample:
  "list_all (positive_row float_of_digits int_of_digits)
     [[''2023-01-01'', ''P001'', ''100000000000000000000'', ''1''],
      [''2023-01-02'', ''P002'', ''1'', ''1'']]
   \<and> (\<exists>st. sales_analysis float_of_digits int_of_digits
          [[''date'', ''product_id'', ''price'', ''units_sold''],
           [''2023-01-01'', ''P001'', ''100000000000000000000'', ''1''],
           [''2023-01-02'', ''P002'', ''1'', ''1'']] = Inr st
        \<and> max_revenue_date st = ''2023-01-01''
        \<and> max_revenue_product st = ''P001''
        \<and> max_revenue_date st \<noteq> ''2023-01-02''
        \<and> max_revenue_product st \<noteq> ''P002'')"
proof -
  have p: "list_all (positive_row float_of_digits int_of_digits)
     [[''2023-01-01'', ''P001'', ''100000000000000000000'', ''1''],
      [''2023-01-02'', ''P002'', ''1'', ''1'']]"
    by (simp add: sales_eval)
  have s: "sales_analysis float_of_digits int_of_digits
          [[''date'', ''product_id'', ''price'', ''units_sold''],
           [''2023-01-01'', ''P001'', ''100000000000000000000'', ''1''],
           [''2023-01-02'', ''P002'', ''1'', ''1'']]
      = Inr \<lparr>revenue = Finite False 6103515625000000 14,
        monthly_revenue = [(''2023-01'', Finite False 6103515625000000 14)],
        product_revenue =
          [(''P001'', Finite False 6103515625000000 14),
           (''P002'', Finite False 4503599627370496 (- 52))],
        max_revenue = Finite False 6103515625000000 14,
        max_revenue_date = ''2023-01-01'', max_revenue_product = ''P001''\<rparr>"
    by (simp add: sales_eval)
  from p s show ?thesis
    by simp
qed

text \<open>
  C10, amended. The maximum tracking compares the running total with \<open>max_revenue\<close>, so
  for every input with at least one data row in which every data row can be read and its
  \<open>price * units_sold\<close> raises the running float total (a positive amount that the
  rounding of the addition does not absorb), after the loop \<open>max_revenue_date\<close> and
  \<open>max_revenue_product\<close> are the date and the product of the last data row, and
  \<open>max_revenue\<close> is the total revenue.
\<close>

theorem last_row_wins_while_total_rises:
  assumes "data \<noteq> []"
    and "raises_total py_float py_int float_zero data"
  shows "\<exists>st date product price units.
           sales_analysis py_float py_int (header # data) = Inr st
           \<and> read_row py_float py_int (last data) = Inr (date, product, price, units)
           \<and> max_revenue_date st = date
           \<and> max_revenue_product st = product
           \<and> max_revenue st = revenue st"
proof -
  from assms(1) obtain rows row where d: "data = rows @ [row]"
    by (metis append_butlast_last_id)
  have "revenue (sales_start :: 'a sales) = float_zero"
       "max_revenue (sales_start :: 'a sales) = revenue (sales_start :: 'a sales)"
    by (simp_all add: sales_start_def)
  with assms(2) d sales_loop_last [of py_float py_int sales_start rows row]
  show ?thesis
    by (simp add: sales_analysis_def)
qed

text \<open>On the notebook's own \<open>sales.csv\<close> every row raises the total, and the result is the
  last row (2023-05-25, P002, an amount of 1260), not the row with the largest amount
  (2023-04-23, P003, 2380).\<close>

theorem last_row_wins_while_total_rises_witness:
  "tl sales_csv \<noteq> []
   \<and> raises_total float_of_digits int_of_digits float_zero (tl sales_csv)
   \<and> (\<exists>st. sales_analysis float_of_digits int_of_digits sales_csv = Inr st
          \<and> max_revenue_date st = ''2023-05-25''
          \<and> max_revenue_product st = ''P002'')"
proof -
  have n: "tl sales_csv \<noteq> []"
    by (simp add: sales_csv_def)
  have r: "raises_total float_of_digits int_of_digits float_zero (tl sales_csv)"
    by (simp add: sales_eval)
  have c: "hd sales_csv # tl sales_csv = sales_csv"
    by (simp add: sales_csv_def)
  have l: "read_row float_of_digits int_of_digits (last (tl sales_csv))
             = Inr (''2023-05-25'', ''P002'', Finite False 8444249301319680 (- 47), 21)"
    by (simp add: sales_eval)
  from last_row_wins_while_total_rises [OF n r, of "hd sales_csv"] c l
  have "\<exists>st. sales_analysis float_of_digits int_of_digits sales_csv = Inr st
          \<and> max_revenue_date st = ''2023-05-25''
          \<and> max_revenue_product st = ''P002''"
    by auto
  with n r show ?thesis
    by blast
qed

section \<open>Properties of the request builders\<close>

subsection \<open>Evaluating the printing and reading of numbers\<close>

lemma leading_zeros_stop: "\<not> (0 < p \<and> 10 * p < q) \<Longrightarrow> leading_zeros p q = 0"
  by (subst leading_zeros.simps) simp

lemma leading_zeros_step: "0 < p \<Longrightarrow> 10 * p < q \<Longrightarrow> leading_zeros p q = Suc (leading_zeros (10 * p) q)"
  by (subst leading_zeros.simps) simp

lemma digits_of_small: "n < 10 \<Longrightarrow> digits_of n = [digit_char n]"
  by (subst digits_of.simps) simp

lemma digits_of_large: "\<not> n < 10 \<Longrightarrow> digits_of n = digits_of (n div 10) @ [digit_char (n mod 10)]"
  by (subst digits_of.simps) simp

lemma shortest_decimal_numeral:
  "shortest_decimal (numeral n) x s p q d k =
     (let scale = d - int k;
          num = (if 0 \<le> scale then p else p * 10 ^ nat (- scale));
          den = (if 0 \<le> scale then q * 10 ^ nat scale else q);
          lo = num div den;
          hi = lo + 1;
          lo_ok = (0 < lo \<and> round_decimal s lo scale = x);
          hi_ok = (round_decimal s hi scale = x)
      in if lo_ok \<and> hi_ok then (round_half_even num den, scale)
         else if lo_ok then (lo, scale)
         else if hi_ok then (hi, scale)
         else shortest_decimal (pred_numeral n) x s p q d (Suc k))"
  by (simp only: numeral_eq_Suc shortest_decimal.simps)

lemmas json_eval =
  float_eval leading_zeros_stop leading_zeros_step digits_of_small digits_of_large digit_char_def
  char_of_def bit_Suc_0_iff decimal_point_def round_decimal_def strip_zeros_def exponent_digits_def
  float_layout_def float_digits_def float_str_def int_repr_def float_of_literal_def
  is_digit_def digits_nat_def int_of_literal_def shortest_decimal_numeral



subsection \<open>A string is read back from its escaped form\<close>

lemma of_char_of_small: "n < 256 \<Longrightarrow> of_char (char_of n) = (n :: nat)"
  by (simp add: of_char_of)

lemma hex_value_hex_char:
  assumes "d < 16"
  shows "hex_value (hex_char d) = Some d"
proof (cases "d < 10")
  case True
  then have "of_char (hex_char d) = 48 + d"
    by (simp add: hex_char_def of_char_of_small)
  with True show ?thesis
    by (simp add: hex_value_def Let_def)
next
  case False
  with assms have "of_char (hex_char d) = 87 + d"
    by (simp add: hex_char_def of_char_of_small)
  with False assms show ?thesis
    by (simp add: hex_value_def Let_def)
qed

lemma hex_digits_sum:
  fixes n :: nat
  assumes "n < 65536"
  shows "4096 * (n div 4096 mod 16) + 256 * (n div 256 mod 16) + 16 * (n div 16 mod 16)
           + n mod 16 = n"
proof -
  define a where "a = n div 16"
  define b where "b = a div 16"
  define c where "c = b div 16"
  have b: "b = n div 256"
    unfolding b_def a_def by (simp add: div_mult2_eq [symmetric])
  have c: "c = n div 4096"
    unfolding c_def b by (simp add: div_mult2_eq [symmetric])
  from assms have "c < 16"
    unfolding c by simp
  then have c16: "c mod 16 = c"
    by simp
  have 1: "n = 16 * a + n mod 16"
    unfolding a_def by simp
  have 2: "a = 16 * b + a mod 16"
    unfolding b_def by simp
  have 3: "b = 16 * c + b mod 16"
    unfolding c_def by simp
  have "4096 * (c mod 16) + 256 * (b mod 16) + 16 * (a mod 16) + n mod 16 = n"
    unfolding c16 using 1 2 3 by linarith
  then show ?thesis
    unfolding c b a_def .
qed

lemma hex4_value_hex4:
  assumes "n < 65536"
  shows "hex4_value (hex_char (n div 4096 mod 16)) (hex_char (n div 256 mod 16))
           (hex_char (n div 16 mod 16)) (hex_char (n mod 16)) = Some n"
proof -
  have "hex_value (hex_char (n div 4096 mod 16)) = Some (n div 4096 mod 16)"
       "hex_value (hex_char (n div 256 mod 16)) = Some (n div 256 mod 16)"
       "hex_value (hex_char (n div 16 mod 16)) = Some (n div 16 mod 16)"
       "hex_value (hex_char (n mod 16)) = Some (n mod 16)"
    by (rule hex_value_hex_char, simp)+
  then have "hex4_value (hex_char (n div 4096 mod 16)) (hex_char (n div 256 mod 16))
               (hex_char (n div 16 mod 16)) (hex_char (n mod 16))
             = Some (4096 * (n div 4096 mod 16) + 256 * (n div 256 mod 16)
                     + 16 * (n div 16 mod 16) + n mod 16)"
    by (simp only: hex4_value.simps prod.case option.case)
  then show ?thesis
    by (simp only: hex_digits_sum [OF assms])
qed

lemma hex4_cases:
  assumes "n < 65536"
  obtains x y z w where "hex4 n = [x, y, z, w]" and "hex4_value x y z w = Some n"
  using hex4_value_hex4 [OF assms] unfolding hex4_def by blast

lemma scan_quote: "scan_string (CHR 0x22 # cs) = Some ([], cs)"
  by simp

lemma scan_simple:
  assumes "simple_escape e = Some n"
  shows "scan_string (CHR 0x5C # e # rest) = with_char n (scan_string rest)"
proof -
  from assms have "e \<noteq> CHR ''u''"
    by (auto simp: simple_escape_def split: if_splits)
  with assms show ?thesis
    by simp
qed

lemma scan_unicode:
  assumes "n < 65536" and "\<not> (55296 \<le> n \<and> n \<le> 56319)"
  shows "scan_string (CHR 0x5C # CHR ''u'' # hex4 n @ rest) = with_char n (scan_string rest)"
proof -
  from assms(1) obtain x y z w where h: "hex4 n = [x, y, z, w]" and v: "hex4_value x y z w = Some n"
    by (rule hex4_cases)
  from v assms(2) show ?thesis
    unfolding h by (auto simp del: hex4_value.simps)
qed

lemma low_surrogate_hex4:
  assumes "56320 \<le> n" and "n \<le> 57343"
  shows "low_surrogate (CHR 0x5C # CHR ''u'' # hex4 n @ rest) = Some (n, rest)"
proof -
  from assms have "n < 65536"
    by simp
  then obtain x y z w where h: "hex4 n = [x, y, z, w]" and v: "hex4_value x y z w = Some n"
    by (rule hex4_cases)
  from v assms show ?thesis
    unfolding h by (simp del: hex4_value.simps)
qed

lemma scan_pair:
  assumes "55296 \<le> h" and "h \<le> 56319" and "56320 \<le> l" and "l \<le> 57343"
  shows "scan_string (CHR 0x5C # CHR ''u'' # hex4 h @ CHR 0x5C # CHR ''u'' # hex4 l @ rest)
           = with_char (65536 + 1024 * (h - 55296) + (l - 56320)) (scan_string rest)"
proof -
  from assms have "h < 65536"
    by simp
  then obtain x y z w where h: "hex4 h = [x, y, z, w]" and v: "hex4_value x y z w = Some h"
    by (rule hex4_cases)
  have d: "drop 6 (CHR 0x5C # CHR ''u'' # hex4 l @ rest) = rest"
    by (simp add: hex4_def)
  note l = low_surrogate_hex4 [OF assms(3,4), of rest]
  have "scan_string (CHR 0x5C # CHR ''u'' # x # y # z # w # (CHR 0x5C # CHR ''u'' # hex4 l @ rest))
           = with_char (65536 + 1024 * (h - 55296) + (l - 56320))
               (scan_string (drop 6 (CHR 0x5C # CHR ''u'' # hex4 l @ rest)))"
    using assms(1,2) v l
    by (simp del: hex4_value.simps low_surrogate.simps)
  then show ?thesis
    unfolding d h by simp
qed

lemma scan_plain:
  assumes "c \<noteq> CHR 0x22" and "c \<noteq> CHR 0x5C" and "32 \<le> (of_char c :: nat)"
  shows "scan_string (c # cs) = with_char (of_char c) (scan_string cs)"
  using assms by simp

lemma scan_escape_char:
  assumes "c < 1114112" and "c < 55296 \<or> 57343 < c"
  shows "scan_string (escape_char c @ rest) = with_char c (scan_string rest)"
proof -
  consider "c = 34" | "c = 92" | "c = 10" | "c = 13" | "c = 9" | "c = 8" | "c = 12"
    | "32 \<le> c" "c \<le> 126" "c \<noteq> 34" "c \<noteq> 92"
    | "c < 32" "c \<noteq> 10" "c \<noteq> 13" "c \<noteq> 9" "c \<noteq> 8" "c \<noteq> 12"
    | "126 < c" "c < 65536"
    | "65536 \<le> c"
    by linarith
  then show ?thesis
  proof cases
    case 1
    then show ?thesis
      by (simp add: escape_char_def scan_simple simple_escape_def del: scan_string.simps)
  next
    case 2
    then show ?thesis
      by (simp add: escape_char_def scan_simple simple_escape_def del: scan_string.simps)
  next
    case 3
    then show ?thesis
      by (simp add: escape_char_def scan_simple simple_escape_def del: scan_string.simps)
  next
    case 4
    then show ?thesis
      by (simp add: escape_char_def scan_simple simple_escape_def del: scan_string.simps)
  next
    case 5
    then show ?thesis
      by (simp add: escape_char_def scan_simple simple_escape_def del: scan_string.simps)
  next
    case 6
    then show ?thesis
      by (simp add: escape_char_def scan_simple simple_escape_def del: scan_string.simps)
  next
    case 7
    then show ?thesis
      by (simp add: escape_char_def scan_simple simple_escape_def del: scan_string.simps)
  next
    case 8
    then have e: "escape_char c = [char_of c]"
      by (simp add: escape_char_def)
    from 8 have o: "of_char (char_of c) = c"
      by (simp add: of_char_of_small)
    have "char_of c \<noteq> CHR 0x22"
    proof
      assume "char_of c = CHR 0x22"
      then have "(of_char (char_of c) :: nat) = of_char (CHR 0x22)"
        by simp
      with o 8 show False by simp
    qed
    moreover have "char_of c \<noteq> CHR 0x5C"
    proof
      assume "char_of c = CHR 0x5C"
      then have "(of_char (char_of c) :: nat) = of_char (CHR 0x5C)"
        by simp
      with o 8 show False by simp
    qed
    moreover from o 8 have "32 \<le> (of_char (char_of c) :: nat)"
      by simp
    ultimately have "scan_string (char_of c # rest)
                       = with_char (of_char (char_of c)) (scan_string rest)"
      by (rule scan_plain)
    then show ?thesis
      unfolding e o by simp
  next
    case 9
    then have e: "escape_char c = CHR 0x5C # CHR ''u'' # hex4 c"
      by (simp add: escape_char_def)
    from 9 have "c < 65536" "\<not> (55296 \<le> c \<and> c \<le> 56319)"
      by simp_all
    then have "scan_string (CHR 0x5C # CHR ''u'' # hex4 c @ rest) = with_char c (scan_string rest)"
      by (rule scan_unicode)
    then show ?thesis
      unfolding e by simp
  next
    case 10
    then have e: "escape_char c = CHR 0x5C # CHR ''u'' # hex4 c"
      by (simp add: escape_char_def)
    from 10 assms(2) have "c < 65536" "\<not> (55296 \<le> c \<and> c \<le> 56319)"
      by auto
    then have "scan_string (CHR 0x5C # CHR ''u'' # hex4 c @ rest) = with_char c (scan_string rest)"
      by (rule scan_unicode)
    then show ?thesis
      unfolding e by simp
  next
    case 11
    define h where "h = 55296 + (c - 65536) div 1024"
    define l where "l = 56320 + (c - 65536) mod 1024"
    from 11 assms(1) have "(c - 65536) div 1024 < 1024"
      by simp
    then have m: "(c - 65536) div 1024 mod 1024 = (c - 65536) div 1024"
      by simp
    from 11 have e: "escape_char c
        = CHR 0x5C # CHR ''u'' # hex4 h @ CHR 0x5C # CHR ''u'' # hex4 l"
      unfolding h_def l_def by (simp add: escape_char_def m)
    have "55296 \<le> h" "h \<le> 56319" "56320 \<le> l" "l \<le> 57343"
      unfolding h_def l_def using \<open>(c - 65536) div 1024 < 1024\<close> by simp_all
    then have "scan_string (CHR 0x5C # CHR ''u'' # hex4 h @ CHR 0x5C # CHR ''u'' # hex4 l @ rest)
           = with_char (65536 + 1024 * (h - 55296) + (l - 56320)) (scan_string rest)"
      by (rule scan_pair)
    moreover from 11 have "65536 + 1024 * (h - 55296) + (l - 56320) = c"
      unfolding h_def l_def by simp
    ultimately show ?thesis
      unfolding e by simp
  qed
qed

lemma scan_encoded:
  assumes "scalar_values s"
  shows "scan_string (concat (map escape_char s) @ CHR 0x22 # rest) = Some (s, rest)"
  using assms
proof (induction s)
  case Nil
  show ?case by simp
next
  case (Cons c s)
  then have "c < 1114112" "c < 55296 \<or> 57343 < c" "scalar_values s"
    by (simp_all add: scalar_values_def)
  with Cons.IH show ?case
    by (simp add: scan_escape_char with_char_def del: scan_string.simps)
qed


subsection \<open>The body of the Nova request\<close>

lemma parse_numeral: "parse (numeral n) r ts = parse (Suc (pred_numeral n)) r ts"
  by (simp only: numeral_eq_Suc)

lemma f03: "float_of_literal ''0.3'' = Finite False 5404319552844595 (- 54)"
  by (simp add: json_eval)

lemma f01: "float_of_literal ''0.1'' = Finite False 7205759403792794 (- 56)"
  by (simp add: json_eval)

lemma r03: "float_str (Finite False 5404319552844595 (- 54)) = ''0.3''"
  by (simp add: json_eval del: shortest_decimal.simps(2))

lemma r01: "float_str (Finite False 7205759403792794 (- 56)) = ''0.1''"
  by (simp add: json_eval del: shortest_decimal.simps(2))

lemma nova_body_text:
  "nova_body prompt =
     [CHR ''{'', CHR 0x22] @ ''schemaVersion'' @ [CHR 0x22] @ '': '' @ [CHR 0x22] @ ''messages-v1''
     @ [CHR 0x22] @ '', '' @ [CHR 0x22] @ ''messages'' @ [CHR 0x22] @ '': [{'' @ [CHR 0x22] @ ''role''
     @ [CHR 0x22] @ '': '' @ [CHR 0x22] @ ''user'' @ [CHR 0x22] @ '', '' @ [CHR 0x22] @ ''content''
     @ [CHR 0x22] @ '': [{'' @ [CHR 0x22] @ ''text'' @ [CHR 0x22] @ '': '' @ [CHR 0x22]
     @ concat (map escape_char prompt)
     @ [CHR 0x22] @ ''}]}], '' @ [CHR 0x22] @ ''inferenceConfig'' @ [CHR 0x22] @ '': {''
     @ [CHR 0x22] @ ''maxTokens'' @ [CHR 0x22] @ '': 300, '' @ [CHR 0x22] @ ''temperature''
     @ [CHR 0x22] @ '': 0.3, '' @ [CHR 0x22] @ ''topP'' @ [CHR 0x22] @ '': 0.1, '' @ [CHR 0x22]
     @ ''topK'' @ [CHR 0x22] @ '': 20}}''"
  by (simp add: nova_body_def nova_request_def f03 f01 r03 r01 encode_string_def ascii_def
        escape_char_def char_of_def bit_Suc_0_iff int_repr_def digits_of_small digits_of_large
        digit_char_def)


lemma nova_body_tokens:
  assumes "scalar_values prompt"
  shows "json_tokens (nova_body prompt) =
     Some [LBrace, StringT (ascii ''schemaVersion''), Colon, StringT (ascii ''messages-v1''), Comma,
           StringT (ascii ''messages''), Colon, LBracket, LBrace,
           StringT (ascii ''role''), Colon, StringT (ascii ''user''), Comma,
           StringT (ascii ''content''), Colon, LBracket, LBrace,
           StringT (ascii ''text''), Colon, StringT prompt, RBrace, RBracket, RBrace, RBracket, Comma,
           StringT (ascii ''inferenceConfig''), Colon, LBrace,
           StringT (ascii ''maxTokens''), Colon, NumberT ''300'', Comma,
           StringT (ascii ''temperature''), Colon, NumberT ''0.3'', Comma,
           StringT (ascii ''topP''), Colon, NumberT ''0.1'', Comma,
           StringT (ascii ''topK''), Colon, NumberT ''20'', RBrace, RBrace]"
  unfolding nova_body_text
  by (simp add: scan_encoded [OF assms] next_token_def is_space_def is_digit_def is_letter_def
        number_char_def with_token_def with_char_def ascii_def)


lemma nova_body_json:
  assumes "scalar_values prompt"
  shows "parse_json (nova_body prompt) =
     Some (JObject
       [(ascii ''schemaVersion'', JString (ascii ''messages-v1'')),
        (ascii ''messages'',
           JArray [JObject [(ascii ''role'', JString (ascii ''user'')),
                            (ascii ''content'', JArray [JObject [(ascii ''text'', JString prompt)]])]]),
        (ascii ''inferenceConfig'',
           JObject [(ascii ''maxTokens'', JNumber ''300''),
                    (ascii ''temperature'', JNumber ''0.3''),
                    (ascii ''topP'', JNumber ''0.1''),
                    (ascii ''topK'', JNumber ''20'')])])"
  unfolding parse_json_def nova_body_tokens [OF assms]
  by (simp add: parse_numeral atom_def key_of_def is_number_def is_fraction_def is_exponent_def
        is_digit_def del: Suc_numeral)

lemma nova_body_loads:
  assumes "scalar_values prompt"
  shows "loads (nova_body prompt) =
     Inr (nova_request prompt (PyInt 300) (PyFloat (float_of_literal ''0.3''))
            (PyFloat (float_of_literal ''0.1'')) (PyInt 20))"
  unfolding loads_def nova_body_json [OF assms]
  by (simp add: nova_request_def is_float_literal_def int_of_literal_def digits_nat_def ascii_def)

text \<open>
  C5. The Nova cell builds its body with \<open>maxTokens\<close> 300, \<open>temperature\<close> 0.3, \<open>topP\<close> 0.1 and
  \<open>topK\<close> 20. For every prompt that is Unicode text, and so for the sample prompt of the
  summarization cell, \<open>json.loads\<close> reads the body back as a \<open>dict\<close> whose \<open>inferenceConfig\<close>
  is exactly \<open>{"maxTokens": 300, "temperature": 0.3, "topP": 0.1, "topK": 20}\<close> and whose
  \<open>messages\<close> is the list of one message, of role \<open>user\<close>, whose content is the one text
  block with the prompt.
\<close>

theorem nova_body_read_back:
  assumes "scalar_values prompt"
  shows "\<exists>payload.
           loads (nova_body prompt) = Inr payload
           \<and> getitem payload (Key (ascii ''inferenceConfig''))
               = Inr (PyDict [(ascii ''maxTokens'', PyInt 300),
                              (ascii ''temperature'', PyFloat (float_of_literal ''0.3'')),
                              (ascii ''topP'', PyFloat (float_of_literal ''0.1'')),
                              (ascii ''topK'', PyInt 20)])
           \<and> getitem payload (Key (ascii ''messages''))
               = Inr (PyList [PyDict [(ascii ''role'', PyStr (ascii ''user'')),
                                      (ascii ''content'',
                                         PyList [PyDict [(ascii ''text'', PyStr prompt)]])]])"
proof -
  let ?payload = "nova_request prompt (PyInt 300) (PyFloat (float_of_literal ''0.3''))
                    (PyFloat (float_of_literal ''0.1'')) (PyInt 20)"
  have "loads (nova_body prompt) = Inr ?payload"
    using assms by (rule nova_body_loads)
  moreover have "getitem ?payload (Key (ascii ''inferenceConfig''))
               = Inr (PyDict [(ascii ''maxTokens'', PyInt 300),
                              (ascii ''temperature'', PyFloat (float_of_literal ''0.3'')),
                              (ascii ''topP'', PyFloat (float_of_literal ''0.1'')),
                              (ascii ''topK'', PyInt 20)])"
    by (simp add: nova_request_def ascii_def)
  moreover have "getitem ?payload (Key (ascii ''messages''))
               = Inr (PyList [PyDict [(ascii ''role'', PyStr (ascii ''user'')),
                                      (ascii ''content'',
                                         PyList [PyDict [(ascii ''text'', PyStr prompt)]])]])"
    by (simp add: nova_request_def ascii_def)
  ultimately show ?thesis
    by blast
qed

text \<open>The sample prompt, with the two floats as binary64 numbers: \<open>0.3\<close> is
  \<open>5404319552844595 / 2^54\<close> and \<open>0.1\<close> is \<open>7205759403792794 / 2^56\<close>.\<close>

theorem nova_body_read_back_witness:
  "scalar_values sample_prompt
   \<and> (\<exists>payload.
           loads (nova_body sample_prompt) = Inr payload
           \<and> getitem payload (Key (ascii ''inferenceConfig''))
               = Inr (PyDict [(ascii ''maxTokens'', PyInt 300),
                              (ascii ''temperature'', PyFloat (Finite False 5404319552844595 (- 54))),
                              (ascii ''topP'', PyFloat (Finite False 7205759403792794 (- 56))),
                              (ascii ''topK'', PyInt 20)])
           \<and> getitem payload (Key (ascii ''messages''))
               = Inr (PyList [PyDict [(ascii ''role'', PyStr (ascii ''user'')),
                                      (ascii ''content'',
                                         PyList [PyDict [(ascii ''text'', PyStr sample_prompt)]])]]))"
proof -
  have s: "scalar_values sample_prompt"
    by (simp add: scalar_values_def sample_prompt_def ascii_def)
  from nova_body_read_back [OF s] s show ?thesis
    unfolding f03 f01 by blast
qed

end
